theory Spec2Isabelle
  imports Complex_Main "HOL-Library.Multiset"
begin

section \<open>Values, run state and audit trail\<close>

text \<open>
  The run state of the workflow is a Python \<open>Dict[str, Any]\<close>. Its values are modelled by
  \<open>pyval\<close>. Python floats are idealised as rationals. \<open>VFmt\<close> is a string built by an
  f-string or by \<open>str(...)\<close>: the list holds the literal pieces and the values of the holes
  in order, left unformatted.
\<close>

datatype pyval =
    VNone
  | VBool bool
  | VInt int
  | VFloat rat
  | VStr string
  | VFmt "pyval list"
  | VList "pyval list"
  | VDict "(string \<times> pyval) list"

datatype error =
    KeyError
  | TypeError
  | ValueError
  | AttributeError
  | IndexError
  | UnboundLocalError
  | SqlError

type_synonym state = "string \<rightharpoonup> pyval"

text \<open>\<open>audit.log_step\<close> inserts one row into \<open>agent_runs\<close>; the table is modelled as the
  list of its rows in insertion order (the \<open>created_at\<close> clock reading is left out).\<close>

record audit_event =
  run_id :: pyval
  step_name :: string
  inp :: pyval
  out :: pyval
  confidence :: rat
  evidence :: "pyval list"

type_synonym trail = "audit_event list"

definition log_step ::
  "pyval \<Rightarrow> string \<Rightarrow> pyval \<Rightarrow> pyval \<Rightarrow> rat \<Rightarrow> pyval list \<Rightarrow> trail \<Rightarrow> trail" where
  "log_step rid step i ou conf ev t =
     t @ [\<lparr>run_id = rid, step_name = step, inp = i, out = ou, confidence = conf, evidence = ev\<rparr>]"

text \<open>A node returns a dict, or \<open>None\<close> when it falls off its end; an exception leaving the
  node is \<open>Inl\<close>. The trail is returned beside the outcome because rows written before an
  exception stay in the table.\<close>

type_synonym outcome = "(error + state option) \<times> trail"

subsection \<open>\<open>_merged\<close> (graph.py, lines 38 to 41)\<close>

definition merged :: "state \<Rightarrow> state \<Rightarrow> state" where
  "merged st updates = st ++ updates"

text \<open>\<open>state.get(key, default)\<close>\<close>

definition get_or :: "state \<Rightarrow> string \<Rightarrow> pyval \<Rightarrow> pyval" where
  "get_or st k d = (case st k of None \<Rightarrow> d | Some v \<Rightarrow> v)"

text \<open>Python truthiness. A \<open>VFmt\<close> is a string: it is empty exactly when every piece
  prints as the empty string, which only empty strings do.\<close>

fun str_nonempty :: "pyval \<Rightarrow> bool" where
  "str_nonempty (VStr s) = (s \<noteq> [])"
| "str_nonempty (VFmt ps) = list_ex str_nonempty ps"
| "str_nonempty _ = True"

fun py_truthy :: "pyval \<Rightarrow> bool" where
  "py_truthy VNone = False"
| "py_truthy (VBool b) = b"
| "py_truthy (VInt n) = (n \<noteq> 0)"
| "py_truthy (VFloat x) = (x \<noteq> 0)"
| "py_truthy (VStr s) = (s \<noteq> [])"
| "py_truthy (VFmt ps) = str_nonempty (VFmt ps)"
| "py_truthy (VList xs) = (xs \<noteq> [])"
| "py_truthy (VDict kvs) = (kvs \<noteq> [])"

section \<open>Text helpers\<close>

text \<open>Strings are ASCII texts: \<open>str.lower\<close> maps A to Z onto a to z, and the white space
  of \<open>str.split\<close> and \<open>str.strip\<close> is the code points 9 to 13, 28 to 31 and 32.\<close>

definition lower_char :: "char \<Rightarrow> char" where
  "lower_char c = (let n = (of_char c :: nat) in if 65 \<le> n \<and> n \<le> 90 then char_of (n + 32) else c)"

definition lower :: "string \<Rightarrow> string" where
  "lower s = map lower_char s"

definition is_space :: "char \<Rightarrow> bool" where
  "is_space c = (let n = (of_char c :: nat) in (9 \<le> n \<and> n \<le> 13) \<or> (28 \<le> n \<and> n \<le> 32))"

text \<open>\<open>text.startswith(k)\<close> and the substring test \<open>k in text\<close>\<close>

fun starts_with :: "string \<Rightarrow> string \<Rightarrow> bool" where
  "starts_with cs [] = True"
| "starts_with [] (k # ks) = False"
| "starts_with (c # cs) (k # ks) = (c = k \<and> starts_with cs ks)"

fun contains :: "string \<Rightarrow> string \<Rightarrow> bool" where
  "contains [] k = (k = [])"
| "contains (c # cs) k = (starts_with (c # cs) k \<or> contains cs k)"

text \<open>\<open>any(k in text for k in ks)\<close>\<close>

definition any_in :: "string list \<Rightarrow> string \<Rightarrow> bool" where
  "any_in ks text = list_ex (contains text) ks"

text \<open>\<open>s.split()\<close>: the maximal runs of non-space characters, in order.\<close>

definition split_step :: "char \<Rightarrow> string \<times> string list \<Rightarrow> string \<times> string list" where
  "split_step c acc =
     (case acc of (w, ws) \<Rightarrow>
        if is_space c then ([], if w = [] then ws else w # ws) else (c # w, ws))"

definition split :: "string \<Rightarrow> string list" where
  "split s = (case foldr split_step s ([], []) of (w, ws) \<Rightarrow> if w = [] then ws else w # ws)"

text \<open>\<open>s.strip()\<close>\<close>

definition strip :: "string \<Rightarrow> string" where
  "strip s = rev (dropWhile is_space (rev (dropWhile is_space s)))"

subsection \<open>Subscripts and conversions\<close>

text \<open>\<open>d[k]\<close> on a value: a dict without the key raises KeyError, a value that is not a
  dict raises TypeError. A \<open>VDict\<close> lists each key once.\<close>

definition subscript :: "pyval \<Rightarrow> string \<Rightarrow> error + pyval" where
  "subscript d k =
     (case d of
        VDict kvs \<Rightarrow> (case map_of kvs k of None \<Rightarrow> Inl KeyError | Some v \<Rightarrow> Inr v)
      | _ \<Rightarrow> Inl TypeError)"

text \<open>\<open>data.get(k, default)\<close> on a value: AttributeError unless it is a dict.\<close>

definition dict_get :: "pyval \<Rightarrow> string \<Rightarrow> pyval \<Rightarrow> error + pyval" where
  "dict_get d k dflt =
     (case d of
        VDict kvs \<Rightarrow> (case map_of kvs k of None \<Rightarrow> Inr dflt | Some v \<Rightarrow> Inr v)
      | _ \<Rightarrow> Inl AttributeError)"

text \<open>\<open>(email["subject"] + " " + email["body"])\<close>. The fields of an email are plain
  strings, as \<open>app.chat\<close> builds them; \<open>+\<close> on any other value is a TypeError.\<close>

definition email_text :: "pyval \<Rightarrow> error + string" where
  "email_text email =
     (case subscript email ''subject'' of
        Inl e \<Rightarrow> Inl e
      | Inr sj \<Rightarrow>
          (case sj of
             VStr subj \<Rightarrow>
               (case subscript email ''body'' of
                  Inl e \<Rightarrow> Inl e
                | Inr bd \<Rightarrow> (case bd of VStr body \<Rightarrow> Inr (subj @ '' '' @ body) | _ \<Rightarrow> Inl TypeError))
           | _ \<Rightarrow> Inl TypeError))"

section \<open>Environment\<close>

text \<open>
  What the nodes take from outside the repository. \<open>chat\<close> is \<open>llm.get_chat_model()\<close>:
  \<open>None\<close> without an API key, otherwise the model, seen as the function from a prompt to
  the JSON value that the reply (fences removed) parses to, \<open>None\<close> when parsing raises.
  \<open>float_of_str\<close> is \<open>float\<close> on a string (\<open>None\<close> is its ValueError), \<open>strptime_date\<close>
  is \<open>datetime.strptime(s, "%Y-%m-%dT%H:%M:%S.%f").date()\<close> as a day number (\<open>None\<close> is
  its ValueError), \<open>today\<close> is \<open>date.today()\<close> as a day number and \<open>uuid4_hex\<close> is the
  token that \<open>uuid.uuid4().hex\<close> returns. \<open>round2\<close> is \<open>round(x, 2)\<close> and \<open>str_of\<close> is
  \<open>str(v)\<close>; both are left to the environment, since what they return depends on the
  binary representation of floats.
\<close>

type_synonym chat_model = "pyval \<Rightarrow> pyval option"

record env =
  chat :: "chat_model option"
  float_of_str :: "string \<Rightarrow> rat option"
  strptime_date :: "string \<Rightarrow> int option"
  today :: int
  uuid4_hex :: string
  round2 :: "rat \<Rightarrow> rat"
  str_of :: "pyval \<Rightarrow> string"

text \<open>\<open>float(v)\<close>; \<open>None\<close> stands for the TypeError or ValueError it raises.\<close>

definition py_float :: "env \<Rightarrow> pyval \<Rightarrow> rat option" where
  "py_float ev v =
     (case v of
        VInt n \<Rightarrow> Some (of_int n)
      | VFloat x \<Rightarrow> Some x
      | VBool b \<Rightarrow> Some (if b then 1 else 0)
      | VStr s \<Rightarrow> float_of_str ev s
      | _ \<Rightarrow> None)"

text \<open>\<open>state[key]\<close>\<close>

definition need :: "state \<Rightarrow> string \<Rightarrow> error + pyval" where
  "need st k = (case st k of None \<Rightarrow> Inl KeyError | Some v \<Rightarrow> Inr v)"

section \<open>Classification and routing (graph.py)\<close>

definition support_intent_list :: "string list" where
  "support_intent_list =
     [''Access issue around product'', ''Refund request'', ''Technical issue'',
      ''Account verification'', ''Need more info from customer'', ''Other support'']"

definition sales_intent_list :: "string list" where
  "sales_intent_list =
     [''Specific product related inquiry'', ''Customer requirement possible products'',
      ''Best price offer and bundling related query'', ''Order related query'',
      ''Need more info from customer'', ''Other sales'']"

subsection \<open>\<open>classify_node_1\<close> (lines 53 to 95)\<close>

text \<open>The keyword rules of lines 60 to 68.\<close>

definition keyword_category :: "string \<Rightarrow> string \<times> rat" where
  "keyword_category text =
     (if any_in [''refund'', ''access'', ''login'', ''license'', ''error'', ''issue'', ''problem''] text
      then (''Support Type'', 78 / 100)
      else if any_in [''price'', ''quote'', ''discount'', ''buy'', ''purchase'', ''bundle'', ''offer'', ''order''] text
      then (''Sales Type'', 76 / 100)
      else (''Other'', 55 / 100))"

text \<open>Lines 73 to 95. The reply is cut from its first \<open>{\<close> to its last \<open>}\<close> and parsed;
  \<open>chat\<close> gives the parsed value. The fixed wording of the prompt is abbreviated.\<close>

definition classify_node_1 :: "env \<Rightarrow> state \<Rightarrow> trail \<Rightarrow> outcome" where
  "classify_node_1 ev st t =
     (case need st ''email'' of
        Inl e \<Rightarrow> (Inl e, t)
      | Inr email \<Rightarrow>
          (case chat ev of
             None \<Rightarrow>
               (case email_text email of
                  Inl e \<Rightarrow> (Inl e, t)
                | Inr tx \<Rightarrow>
                    (case keyword_category (lower tx) of
                       (category, conf) \<Rightarrow>
                         (case need st ''run_id'' of
                            Inl e \<Rightarrow> (Inl e, t)
                          | Inr rid \<Rightarrow>
                              (Inr (Some (merged st [''category'' \<mapsto> VStr category,
                                                      ''category_confidence'' \<mapsto> VFloat conf])),
                               log_step rid ''classify'' email
                                 (VDict [(''category'', VStr category), (''confidence'', VFloat conf)])
                                 conf [VStr ''rule-based keywords''] t))))
           | Some model \<Rightarrow>
               (case subscript email ''sender_email'' of
                  Inl e \<Rightarrow> (Inl e, t)
                | Inr sender \<Rightarrow>
               (case subscript email ''subject'' of
                  Inl e \<Rightarrow> (Inl e, t)
                | Inr subj \<Rightarrow>
               (case subscript email ''body'' of
                  Inl e \<Rightarrow> (Inl e, t)
                | Inr body \<Rightarrow>
                    (let prompt = VFmt [VStr ''classification agent: From: '', sender,
                                        VStr '' Subject: '', subj, VStr '' Body: '', body];
                         j = (case model prompt of
                                None \<Rightarrow> VDict [(''category'', VStr ''Other''), (''confidence'', VFloat (4 / 10)),
                                                (''rationale'', VStr ''Could not parse model output.'')]
                              | Some d \<Rightarrow> d)
                     in (case dict_get j ''confidence'' (VFloat (4 / 10)) of
                           Inl e \<Rightarrow> (Inl e, t)
                         | Inr c \<Rightarrow>
                        (case py_float ev c of
                           None \<Rightarrow> (Inl ValueError, t)
                         | Some conf \<Rightarrow>
                        (case dict_get j ''category'' (VStr ''Other'') of
                           Inl e \<Rightarrow> (Inl e, t)
                         | Inr category \<Rightarrow>
                        (case dict_get j ''rationale'' (VStr []) of
                           Inl e \<Rightarrow> (Inl e, t)
                         | Inr rationale \<Rightarrow>
                        (case need st ''run_id'' of
                           Inl e \<Rightarrow> (Inl e, t)
                         | Inr rid \<Rightarrow>
                             (Inr (Some (merged st [''category'' \<mapsto> category,
                                                     ''category_confidence'' \<mapsto> VFloat conf])),
                              log_step rid ''classify'' (VDict [(''prompt'', prompt)])
                                (VDict [(''category'', category), (''confidence'', VFloat conf),
                                        (''rationale'', rationale)])
                                conf [VStr ''LLM JSON''] t))))))))))))"

subsection \<open>\<open>classify_node\<close> (lines 279 to 348), the node wired into \<open>build_graph\<close>\<close>

text \<open>The keyword rules of lines 299 to 308; the same lines stand in
  \<open>support_intent_node\<close> and in \<open>extract_details_node\<close>.\<close>

definition keyword_intent :: "string \<Rightarrow> string \<times> rat \<times> string" where
  "keyword_intent txt =
     (if any_in [''refund'', ''return'', ''chargeback'', ''unused credits'', ''damaged''] txt
      then (''Refund request'', 78 / 100, ''Refund-related keywords detected.'')
      else if any_in [''access'', ''login'', ''license'', ''subscription'', ''activate''] txt
      then (''Access issue around product'', 76 / 100, ''Access/licensing keywords detected.'')
      else if any_in [''verify'', ''authenticate'', ''who am i'', ''identity''] txt
      then (''Account verification'', 68 / 100, ''Verification keywords detected.'')
      else if any_in [''error'', ''issue'', ''problem'', ''bug'', ''not working''] txt
      then (''Technical issue'', 70 / 100, ''Technical-problem keywords detected.'')
      else (''Other support'', 55 / 100, ''Fallback.''))"

text \<open>The \<open>try\<close> block of lines 332 to 338: \<open>None\<close> when any statement of it raises.\<close>

definition parse_intent :: "env \<Rightarrow> string list \<Rightarrow> pyval option \<Rightarrow> (pyval \<times> rat \<times> pyval) option" where
  "parse_intent ev allowed reply =
     (case reply of
        None \<Rightarrow> None
      | Some data \<Rightarrow>
          (case dict_get data ''intent'' (VStr ''General'') of
             Inl e \<Rightarrow> None
           | Inr i \<Rightarrow>
          (case dict_get data ''confidence'' (VFloat (6 / 10)) of
             Inl e \<Rightarrow> None
           | Inr c \<Rightarrow>
          (case py_float ev c of
             None \<Rightarrow> None
           | Some conf \<Rightarrow>
          (case dict_get data ''rationale'' (VStr []) of
             Inl e \<Rightarrow> None
           | Inr r \<Rightarrow>
               Some (if i \<in> VStr ` set allowed then i else VStr ''General'', conf, VFmt [r]))))))"

definition classify_node :: "env \<Rightarrow> state \<Rightarrow> trail \<Rightarrow> outcome" where
  "classify_node ev st t =
     (case need st ''email'' of
        Inl e \<Rightarrow> (Inl e, t)
      | Inr email \<Rightarrow>
          (case chat ev of
             None \<Rightarrow>
               (case email_text email of
                  Inl e \<Rightarrow> (Inl e, t)
                | Inr tx \<Rightarrow>
                    (case keyword_intent (lower tx) of
                       (intent, conf, rationale) \<Rightarrow>
                         (case need st ''run_id'' of
                            Inl e \<Rightarrow> (Inl e, t)
                          | Inr rid \<Rightarrow>
                              (Inr (Some (merged st [''intent'' \<mapsto> VStr intent,
                                                      ''intent_confidence'' \<mapsto> VFloat conf,
                                                      ''intent_rationale'' \<mapsto> VStr rationale])),
                               log_step rid ''support_intent'' (VDict [(''email'', email)])
                                 (VDict [(''intent'', VStr intent), (''rationale'', VStr rationale)])
                                 conf [VStr ''heuristic intent''] t))))
           | Some model \<Rightarrow>
               (case subscript email ''subject'' of
                  Inl e \<Rightarrow> (Inl e, t)
                | Inr subj \<Rightarrow>
               (case subscript email ''body'' of
                  Inl e \<Rightarrow> (Inl e, t)
                | Inr body \<Rightarrow>
                    (let prompt = VFmt [VStr ''support and sales intent agent: Subject: '', subj,
                                        VStr '' Body: '', body]
                     in (case (case parse_intent ev (support_intent_list @ sales_intent_list) (model prompt) of
                                 None \<Rightarrow> (VStr ''General'', 55 / 100,
                                           VStr ''Could not parse model output; defaulted.'')
                               | Some r \<Rightarrow> r) of
                           (intent, conf, rationale) \<Rightarrow>
                             (let category =
                                    (if intent \<in> VStr ` set sales_intent_list then ''Sales Type''
                                     else if intent \<in> VStr ` set support_intent_list then ''Support Type''
                                     else ''Others'')
                              in (case need st ''run_id'' of
                                    Inl e \<Rightarrow> (Inl e, t)
                                  | Inr rid \<Rightarrow>
                                      (Inr (Some (merged st [''category'' \<mapsto> VStr category,
                                                              ''intent'' \<mapsto> intent,
                                                              ''intent_confidence'' \<mapsto> VFloat conf,
                                                              ''category_confidence'' \<mapsto> VFloat conf,
                                                              ''intent_rationale'' \<mapsto> rationale])),
                                       log_step rid ''support_intent'' (VDict [(''email'', email)])
                                         (VDict [(''intent'', intent), (''rationale'', rationale)])
                                         conf [VStr ''LLM + KB''] t)))))))))"

subsection \<open>\<open>route_node\<close>, \<open>support_route_node\<close>, \<open>sales_route_node\<close> (lines 98 to 122)\<close>

definition route_node :: "state \<Rightarrow> trail \<Rightarrow> outcome" where
  "route_node st t =
     (let cat = get_or st ''category'' (VStr ''Other'');
          route = (if cat = VStr ''Sales Type'' then ''sales''
                   else if cat = VStr ''Support Type'' then ''support'' else ''other'');
          conf = (if route \<in> {''sales'', ''support''} then 9 / 10 else 6 / 10)
      in (case need st ''run_id'' of
            Inl e \<Rightarrow> (Inl e, t)
          | Inr rid \<Rightarrow>
              (Inr (Some (merged st [''route'' \<mapsto> VStr route, ''route_confidence'' \<mapsto> VFloat conf])),
               log_step rid ''route'' (VDict [(''category'', cat)]) (VDict [(''route'', VStr route)]) conf
                 [VFmt [VStr ''mapped '', cat, VStr '' -> '', VStr route]] t)))"

definition intent_route_node :: "string \<Rightarrow> string list \<Rightarrow> state \<Rightarrow> trail \<Rightarrow> outcome" where
  "intent_route_node catch_all listed st t =
     (let route = get_or st ''intent'' (VStr catch_all);
          cat = get_or st ''category'' (VStr ''Other'');
          conf = (if route \<in> VStr ` set listed then 9 / 10 else 3 / 10);
          rationale = VFmt [VStr ''Mapped from intent '', route]
      in (case need st ''run_id'' of
            Inl e \<Rightarrow> (Inl e, t)
          | Inr rid \<Rightarrow>
              (Inr (Some (merged st [''route'' \<mapsto> route, ''route_confidence'' \<mapsto> VFloat 1])),
               log_step rid ''route'' (VDict [(''category'', cat)])
                 (VDict [(''route'', route), (''rationale'', rationale)]) conf
                 [VFmt [VStr ''mapped '', cat, VStr '' -> '', route]] t)))"

text \<open>The two sub-routers have the same body; they differ in the default of
  \<open>state.get("intent", ...)\<close> and in the tuple of line 108, respectively lines 116 to 119.\<close>

definition support_route_node :: "state \<Rightarrow> trail \<Rightarrow> outcome" where
  "support_route_node = intent_route_node ''Other support''
     [''Access issue around product'', ''Refund request'', ''Technical issue'',
      ''Account verification'', ''Need more info from customer'', ''Other support'']"

definition sales_route_node :: "state \<Rightarrow> trail \<Rightarrow> outcome" where
  "sales_route_node = intent_route_node ''Other sales''
     [''Specific product related inquiry'', ''Customer requirement possible products'',
      ''Best price offer and bundling related query'', ''Order related query'',
      ''Need more info from customer'', ''Other sales'']"

subsection \<open>Shared end-of-flow nodes (lines 599 to 635)\<close>

definition other_node :: "state \<Rightarrow> trail \<Rightarrow> outcome" where
  "other_node st t =
     (case need st ''email'' of
        Inl e \<Rightarrow> (Inl e, t)
      | Inr email \<Rightarrow>
     (case need st ''run_id'' of
        Inl e \<Rightarrow> (Inl e, t)
      | Inr rid \<Rightarrow>
     (case subscript email ''subject'' of
        Inl e \<Rightarrow> (Inl e, t)
      | Inr subj \<Rightarrow>
          (Inr (Some (merged st
                  [''intent'' \<mapsto> VStr ''Other'',
                   ''summary'' \<mapsto> VStr ''Email does not match sales/support. Logged for manual triage.'',
                   ''drafted_email'' \<mapsto> VNone,
                   ''recommendations'' \<mapsto> VList [],
                   ''offers'' \<mapsto> VList [],
                   ''other_confidence'' \<mapsto> VFloat (55 / 100)])),
           log_step rid ''other'' (VDict [(''subject'', subj)]) (VDict [(''intent'', VStr ''Other'')])
             (55 / 100) [VStr ''default bucket''] t))))"

definition unknown_node :: "state \<Rightarrow> trail \<Rightarrow> outcome" where
  "unknown_node st t = other_node st t"

text \<open>\<open>isinstance(x, (int, float))\<close> followed by \<open>float(x)\<close>; a bool is an int.\<close>

definition number_of :: "pyval \<Rightarrow> rat option" where
  "number_of v =
     (case v of
        VInt n \<Rightarrow> Some (of_int n)
      | VFloat x \<Rightarrow> Some x
      | VBool b \<Rightarrow> Some (if b then 1 else 0)
      | _ \<Rightarrow> None)"

definition finalize_node :: "state \<Rightarrow> trail \<Rightarrow> outcome" where
  "finalize_node st t =
     (let conf_fields = map (\<lambda>k. get_or st k VNone)
            [''category_confidence'', ''route_confidence'', ''kb_confidence'', ''intent_confidence'',
             ''sales_confidence'', ''support_confidence'', ''other_confidence''];
          vals = List.map_filter number_of conf_fields;
          avg = (if vals \<noteq> [] then sum_list vals / of_nat (length vals) else 0)
      in (case need st ''run_id'' of
            Inl e \<Rightarrow> (Inl e, t)
          | Inr rid \<Rightarrow>
              (Inr (Some (merged st [''avg_confidence'' \<mapsto> VFloat avg])),
               log_step rid ''finalize'' (VDict [(''route'', get_or st ''route'' VNone)])
                 (VDict [(''avg_confidence'', VFloat avg)]) (9 / 10) [VStr ''consolidated outputs''] t)))"

definition present_node :: "state \<Rightarrow> trail \<Rightarrow> outcome" where
  "present_node st t =
     (case need st ''run_id'' of
        Inl e \<Rightarrow> (Inl e, t)
      | Inr rid \<Rightarrow>
          (Inr (Some st),
           log_step rid ''present'' (VDict [(''route'', get_or st ''route'' VNone)])
             (VDict [(''status'', VStr ''done'')]) (95 / 100) [VStr ''ready to present''] t))"

section \<open>The graph engine\<close>

text \<open>
  The graphs are built with the graph library's \<open>StateGraph(dict)\<close>. What the models below
  take from the library: a node is called with the current state; the dict it returns is the
  next state, a \<open>None\<close> return leaves the state as it was, an exception ends the run with the
  rows written so far; a compiled graph used as a node is run on the state and hands back its
  final state; for conditional edges the library subscripts the path map with the value the
  selector returns, so a value that is not a key of the map is a KeyError.
\<close>

type_synonym node = "state \<Rightarrow> trail \<Rightarrow> outcome"

type_synonym run = "(error + state) \<times> trail"

definition run_node :: "node \<Rightarrow> run \<Rightarrow> run" where
  "run_node f r =
     (case r of
        (Inl e, t) \<Rightarrow> (Inl e, t)
      | (Inr st, t) \<Rightarrow>
          (case f st t of
             (Inl e, t') \<Rightarrow> (Inl e, t')
           | (Inr None, t') \<Rightarrow> (Inr st, t')
           | (Inr (Some st'), t') \<Rightarrow> (Inr st', t')))"

text \<open>A compiled graph used as a node.\<close>

definition as_node :: "(state \<Rightarrow> trail \<Rightarrow> run) \<Rightarrow> node" where
  "as_node g st t = (case g st t of (Inl e, t') \<Rightarrow> (Inl e, t') | (Inr st', t') \<Rightarrow> (Inr (Some st'), t'))"

definition resolve_branch :: "(string \<times> string) list \<Rightarrow> pyval \<Rightarrow> error + string" where
  "resolve_branch path_map v =
     (case v of
        VStr k \<Rightarrow> (case map_of path_map k of None \<Rightarrow> Inl KeyError | Some n \<Rightarrow> Inr n)
      | VList xs \<Rightarrow> Inl TypeError
      | VDict kvs \<Rightarrow> Inl TypeError
      | _ \<Rightarrow> Inl KeyError)"

text \<open>The three selectors \<open>_after_route\<close> (lines 868, 904, 952) are
  \<open>state.get("route", default)\<close> with their own default.\<close>

definition after_route :: "string \<Rightarrow> state \<Rightarrow> pyval" where
  "after_route dflt st = get_or st ''route'' (VStr dflt)"

definition build_graph_path_map :: "(string \<times> string) list" where
  "build_graph_path_map =
     [(''sales'', ''sales''), (''support'', ''support''), (''other'', ''unknown''), (''unknown'', ''unknown'')]"

definition build_support_graph_path_map :: "(string \<times> string) list" where
  "build_support_graph_path_map =
     [(''Access issue around product'', ''access''), (''Refund request'', ''refund''),
      (''Technical issue'', ''technical''), (''Account verification'', ''account''),
      (''Need more info from customer'', ''moreinfo''), (''Other support'', ''other'')]"

definition build_sales_graph_path_map :: "(string \<times> string) list" where
  "build_sales_graph_path_map =
     [(''Specific product related inquiry'', ''product_inquiry''),
      (''Customer requirement possible products'', ''customer_requirement''),
      (''Best price offer and bundling related query'', ''best_price''),
      (''Order related query'', ''order_quiry''),
      (''Need more info from customer'', ''moreinfo''), (''Other sales'', ''other'')]"

subsection \<open>\<open>build_graph\<close> (lines 929 to 967)\<close>

text \<open>classify, route, then the node the path map selects, then finalize and present.
  The compiled sales and support graphs are parameters.\<close>

definition build_graph :: "env \<Rightarrow> node \<Rightarrow> node \<Rightarrow> state \<Rightarrow> trail \<Rightarrow> run" where
  "build_graph ev sales support st t =
     (case run_node route_node (run_node (classify_node ev) (Inr st, t)) of
        (Inl e, t2) \<Rightarrow> (Inl e, t2)
      | (Inr st2, t2) \<Rightarrow>
          (case resolve_branch build_graph_path_map (after_route ''unknown'' st2) of
             Inl e \<Rightarrow> (Inl e, t2)
           | Inr n \<Rightarrow>
               run_node present_node (run_node finalize_node
                 (run_node (if n = ''sales'' then sales else if n = ''support'' then support else unknown_node)
                    (Inr st2, t2)))))"

text \<open>The state \<open>app.chat\<close> starts a run with (app.py, lines 58 to 66); the subject and the
  body arrive sanitised, \<open>guard\<close> is what \<open>guard_email_input\<close> returned.\<close>

definition initial_state :: "string \<Rightarrow> string \<Rightarrow> string \<Rightarrow> string \<Rightarrow> pyval \<Rightarrow> state" where
  "initial_state rid sender subj body guard =
     [''run_id'' \<mapsto> VStr rid,
      ''email'' \<mapsto> VDict [(''sender_email'', VStr sender), (''subject'', VStr subj),
                          (''body'', VStr (if length body \<le> 20000 then body else take 20000 body))],
      ''guardrails'' \<mapsto> guard]"

section \<open>The business store\<close>

text \<open>
  A table is the list of its rows in storage order, a row the list of its columns with
  their values (\<open>sqlite3.Row\<close>). The queries of graph.py are equality filters; \<open>LIMIT 1\<close>
  with \<open>fetchone\<close> is the first match or \<open>None\<close>. SQL equality never holds for NULL,
  compares numbers by value and texts by content; values are compared within one storage
  class, and the tables carry the columns the queries name. Binding a list or a dict as a
  parameter raises in the driver.
\<close>

type_synonym row = "(string \<times> pyval) list"

record store =
  customers :: "row list"
  orders :: "row list"
  products :: "row list"
  pricing_policies :: "row list"
  refund_policies :: "row list"

definition sql_eq :: "pyval \<Rightarrow> pyval \<Rightarrow> bool" where
  "sql_eq a b =
     (case (number_of a, number_of b) of
        (Some x, Some y) \<Rightarrow> x = y
      | _ \<Rightarrow> (case (a, b) of (VStr u, VStr v) \<Rightarrow> u = v | _ \<Rightarrow> False))"

definition bindable :: "pyval \<Rightarrow> bool" where
  "bindable v = (case v of VList xs \<Rightarrow> False | VDict kvs \<Rightarrow> False | _ \<Rightarrow> True)"

definition row_matches :: "(string \<times> pyval) list \<Rightarrow> row \<Rightarrow> bool" where
  "row_matches conds r =
     list_all (\<lambda>(c, v). case map_of r c of None \<Rightarrow> False | Some x \<Rightarrow> sql_eq x v) conds"

text \<open>\<open>_sql_fetchall\<close> and \<open>_sql_fetchone\<close> (lines 44 to 50)\<close>

definition sql_fetchall :: "row list \<Rightarrow> (string \<times> pyval) list \<Rightarrow> error + row list" where
  "sql_fetchall table conds =
     (if list_all (\<lambda>(c, v). bindable v) conds then Inr (filter (row_matches conds) table)
      else Inl SqlError)"

definition sql_fetchone :: "row list \<Rightarrow> (string \<times> pyval) list \<Rightarrow> error + row option" where
  "sql_fetchone table conds =
     (case sql_fetchall table conds of
        Inl e \<Rightarrow> Inl e
      | Inr rs \<Rightarrow> Inr (case rs of [] \<Rightarrow> None | r # _ \<Rightarrow> Some r))"

text \<open>\<open>_sql_fetchone(...)\<close> followed by a subscript of the result inside a \<open>try\<close>: \<open>None\<close>
  when the lookup raises or finds no row (subscripting \<open>None\<close> is a TypeError).\<close>

definition found :: "row list \<Rightarrow> (string \<times> pyval) list \<Rightarrow> row option" where
  "found table conds = (case sql_fetchone table conds of Inl e \<Rightarrow> None | Inr r \<Rightarrow> r)"

text \<open>\<open>row[column]\<close>; \<open>None\<close> is the IndexError of a column the row does not have.\<close>

definition col :: "row \<Rightarrow> string \<Rightarrow> pyval option" where
  "col r c = map_of r c"

section \<open>The refund sub-flow (graph.py, lines 637 to 794)\<close>

subsection \<open>\<open>extract_details_node\<close> (lines 654 to 714)\<close>

record extraction =
  ex_customerEmailId :: pyval
  ex_purchaseOrderNumber :: pyval
  ex_articleDoi :: pyval
  ex_refundReason :: pyval
  ex_refund_conf :: rat
  ex_refund_rationale :: pyval

text \<open>The \<open>try\<close> block of lines 697 to 709: \<open>None\<close> when any statement of it raises.\<close>

definition extract_try :: "env \<Rightarrow> pyval \<Rightarrow> pyval option \<Rightarrow> extraction option" where
  "extract_try ev email reply =
     (case reply of
        None \<Rightarrow> None
      | Some data \<Rightarrow>
     (case dict_get data ''customerEmailId'' email of
        Inl e \<Rightarrow> None
      | Inr ce0 \<Rightarrow>
     (case (if \<not> py_truthy ce0
            then (case subscript email ''sender_email'' of Inl e \<Rightarrow> None | Inr v \<Rightarrow> Some v)
            else (case ce0 of
                    VStr s \<Rightarrow>
                      (if lower (strip s) \<in> {''unidentified'', ''unknown'', ''n/a''}
                       then (case subscript email ''sender_email'' of Inl e \<Rightarrow> None | Inr v \<Rightarrow> Some v)
                       else Some ce0)
                  | _ \<Rightarrow> None)) of
        None \<Rightarrow> None
      | Some ce \<Rightarrow>
     (case dict_get data ''purchaseOrderNumber'' (VStr ''unidentified'') of
        Inl e \<Rightarrow> None
      | Inr pon \<Rightarrow>
     (case dict_get data ''articleDoi'' (VStr ''unidentified'') of
        Inl e \<Rightarrow> None
      | Inr doi \<Rightarrow>
     (case dict_get data ''refundReason'' (VStr ''unidentified'') of
        Inl e \<Rightarrow> None
      | Inr reason \<Rightarrow>
     (case dict_get data ''confidence'' (VFloat (6 / 10)) of
        Inl e \<Rightarrow> None
      | Inr c \<Rightarrow>
     (case py_float ev c of
        None \<Rightarrow> None
      | Some conf \<Rightarrow>
     (case dict_get data ''rationale'' (VStr ''unidentified'') of
        Inl e \<Rightarrow> None
      | Inr rationale \<Rightarrow>
          Some \<lparr>ex_customerEmailId = ce, ex_purchaseOrderNumber = pon, ex_articleDoi = doi,
                ex_refundReason = reason, ex_refund_conf = conf,
                ex_refund_rationale = rationale\<rparr>)))))))))"

definition extract_details_node :: "env \<Rightarrow> state \<Rightarrow> trail \<Rightarrow> outcome" where
  "extract_details_node ev st t =
     (case need st ''email'' of
        Inl e \<Rightarrow> (Inl e, t)
      | Inr email \<Rightarrow>
          (case chat ev of
             None \<Rightarrow>
               (case email_text email of
                  Inl e \<Rightarrow> (Inl e, t)
                | Inr tx \<Rightarrow>
                    (case keyword_intent (lower tx) of
                       (intent, conf, rationale) \<Rightarrow>
                         (case need st ''run_id'' of
                            Inl e \<Rightarrow> (Inl e, t)
                          | Inr rid \<Rightarrow>
                              (Inr (Some (merged st [''intent'' \<mapsto> VStr intent,
                                                      ''intent_confidence'' \<mapsto> VFloat conf,
                                                      ''intent_rationale'' \<mapsto> VStr rationale])),
                               log_step rid ''support_intent'' (VDict [(''email'', email)])
                                 (VDict [(''intent'', VStr intent), (''rationale'', VStr rationale)])
                                 conf [VStr ''heuristic intent''] t))))
           | Some model \<Rightarrow>
               (case subscript email ''subject'' of
                  Inl e \<Rightarrow> (Inl e, t)
                | Inr subj \<Rightarrow>
               (case subscript email ''body'' of
                  Inl e \<Rightarrow> (Inl e, t)
                | Inr body \<Rightarrow>
                    (let prompt = VFmt [VStr ''refund request analysis agent: Subject: '', subj,
                                        VStr '' Body: '', body]
                     in (case need st ''run_id'' of
                           Inl e \<Rightarrow> (Inl e, t)
                         | Inr rid \<Rightarrow>
                             (case extract_try ev email (model prompt) of
                                None \<Rightarrow> (Inl UnboundLocalError, t)
                              | Some x \<Rightarrow>
                                  (Inr (Some (merged st
                                          [''customerEmailId'' \<mapsto> ex_customerEmailId x,
                                           ''purchaseOrderNumber'' \<mapsto> ex_purchaseOrderNumber x,
                                           ''articleDoi'' \<mapsto> ex_articleDoi x,
                                           ''refundReason'' \<mapsto> ex_refundReason x,
                                           ''refund_conf'' \<mapsto> VFloat (ex_refund_conf x),
                                           ''refund_rationale'' \<mapsto> ex_refund_rationale x])),
                                   log_step rid ''data_extraction'' (VDict [(''email'', email)])
                                     (VDict [(''refund_conf'', VFloat (ex_refund_conf x)),
                                             (''rationale'', ex_refund_rationale x)])
                                     (ex_refund_conf x) [VStr ''LLM + DB''] t))))))))"

subsection \<open>\<open>refund_validation_node\<close> (lines 716 to 742)\<close>

text \<open>The \<open>try\<close> block from line 721 on, entered with both state fields read: the result
  of its \<open>return\<close>, or \<open>None\<close> when a statement of it raises. With a cancelled order
  \<open>validation_result\<close> is unbound at line 733, which raises inside the \<open>try\<close>.\<close>

definition validation_try :: "store \<Rightarrow> state \<Rightarrow> trail \<Rightarrow> pyval \<Rightarrow> pyval \<Rightarrow> outcome option" where
  "validation_try db st t customerEmailId purchaseOrderNumber =
     (case found (customers db) [(''email'', customerEmailId)] of
        None \<Rightarrow> None
      | Some cust \<Rightarrow>
     (case col cust ''customer_id'' of
        None \<Rightarrow> None
      | Some customer_id \<Rightarrow>
     (case col cust ''name'' of
        None \<Rightarrow> None
      | Some customer_name \<Rightarrow>
     (case found (orders db) [(''order_number'', purchaseOrderNumber), (''customer_id'', customer_id)] of
        None \<Rightarrow> None
      | Some order \<Rightarrow>
     (case col order ''product_id'' of
        None \<Rightarrow> None
      | Some product_id \<Rightarrow>
     (case col order ''status'' of
        None \<Rightarrow> None
      | Some order_status \<Rightarrow>
     (case col order ''total_amount'' of
        None \<Rightarrow> None
      | Some order_amount \<Rightarrow>
          (if order_status \<noteq> VStr ''cancelled'' then
             (case found (products db) [(''product_id'', product_id)] of
                None \<Rightarrow> None
              | Some product \<Rightarrow>
             (case col product ''name'' of
                None \<Rightarrow> None
              | Some product_name \<Rightarrow>
             (case col product ''is_refundable'' of
                None \<Rightarrow> None
              | Some is_refundable \<Rightarrow>
             (case st ''run_id'' of
                None \<Rightarrow> None
              | Some rid \<Rightarrow>
                  Some (Inr (Some (merged st
                          [''customerEmailId'' \<mapsto> customerEmailId,
                           ''purchaseOrderNumber'' \<mapsto> purchaseOrderNumber,
                           ''customer_id'' \<mapsto> customer_id,
                           ''product_id'' \<mapsto> product_id,
                           ''is_refundable'' \<mapsto> is_refundable,
                           ''order_amount'' \<mapsto> order_amount,
                           ''customer_name'' \<mapsto> customer_name,
                           ''product_name'' \<mapsto> product_name])),
                        log_step rid ''user_authetication'' (VDict [(''email'', customerEmailId)])
                          (VDict [(''purchaseOrderNumber'', purchaseOrderNumber),
                                  (''customer_id'', customer_id), (''product_id'', product_id),
                                  (''is_refundable'', is_refundable), (''order_amount'', order_amount),
                                  (''rationale'',
                                   VFmt [VStr ''Order found with status '', order_status,
                                         VStr ''. Product refundable: '', is_refundable, VStr ''.''])])
                          1 [VStr ''Calculated from DB''] t)))))
           else None))))))))"

text \<open>The \<open>except\<close> block of lines 735 to 742, entered with \<open>purchaseOrderNumber\<close> bound.
  \<open>is_refundable\<close> still holds the \<open>False\<close> of line 717 whenever this block returns.\<close>

definition validation_failed :: "state \<Rightarrow> trail \<Rightarrow> pyval \<Rightarrow> outcome" where
  "validation_failed st t purchaseOrderNumber =
     (case need st ''run_id'' of
        Inl e \<Rightarrow> (Inl e, t)
      | Inr rid \<Rightarrow>
          (Inr (Some (merged st
                  [''customerEmailId'' \<mapsto> VStr ''General'',
                   ''purchaseOrderNumber'' \<mapsto> purchaseOrderNumber,
                   ''customer_id'' \<mapsto> VFloat (3 / 10),
                   ''product_id'' \<mapsto> VStr ''Could not parse model output; defaulted.'',
                   ''is_refundable'' \<mapsto> VBool False,
                   ''order_amount'' \<mapsto> VFloat 0])),
           log_step rid ''user_authetication'' (VDict [(''email'', VStr ''General'')])
             (VDict [(''purchaseOrderNumber'', purchaseOrderNumber),
                     (''customer_id'', VFloat (3 / 10)),
                     (''product_id'', VStr ''Could not parse model output; defaulted.''),
                     (''is_refundable'', VBool False), (''order_amount'', VFloat 0),
                     (''rationale'',
                      VStr ''User authetication failed. Could not validate refund eligibility due to missing or invalid data.'')])
             (3 / 10) [VStr ''Calculated from DB''] t))"

text \<open>The \<open>except\<close> block entered before \<open>purchaseOrderNumber\<close> is bound: line 741 reads
  \<open>state["run_id"]\<close> and then the unbound local.\<close>

definition validation_unbound :: "state \<Rightarrow> trail \<Rightarrow> outcome" where
  "validation_unbound st t =
     (case need st ''run_id'' of Inl e \<Rightarrow> (Inl e, t) | Inr rid \<Rightarrow> (Inl UnboundLocalError, t))"

definition refund_validation_node :: "store \<Rightarrow> state \<Rightarrow> trail \<Rightarrow> outcome" where
  "refund_validation_node db st t =
     (case st ''customerEmailId'' of
        None \<Rightarrow> validation_unbound st t
      | Some customerEmailId \<Rightarrow>
          (case st ''purchaseOrderNumber'' of
             None \<Rightarrow> validation_unbound st t
           | Some purchaseOrderNumber \<Rightarrow>
               (case validation_try db st t customerEmailId purchaseOrderNumber of
                  Some r \<Rightarrow> r
                | None \<Rightarrow> validation_failed st t purchaseOrderNumber)))"

subsection \<open>\<open>create_refund_case_node\<close> (lines 744 to 753)\<close>

definition create_refund_case_node :: "env \<Rightarrow> state \<Rightarrow> trail \<Rightarrow> outcome" where
  "create_refund_case_node ev st t =
     (case need st ''customerEmailId'' of
        Inl e \<Rightarrow> (Inl e, t)
      | Inr customerEmailId \<Rightarrow>
     (case need st ''is_refundable'' of
        Inl e \<Rightarrow> (Inl e, t)
      | Inr is_refundable \<Rightarrow>
          (if py_truthy is_refundable then
             (case need st ''run_id'' of
                Inl e \<Rightarrow> (Inl e, t)
              | Inr rid \<Rightarrow>
                  (Inr (Some (merged st [''oracle_service_ticket_number'' \<mapsto> VStr (uuid4_hex ev)])),
                   log_step rid ''OSC_case_creation'' (VDict [(''email'', customerEmailId)])
                     (VDict [(''oracle_service_ticket_number'', VStr (uuid4_hex ev)),
                             (''rationale'',
                              VFmt [VStr ''Created refund case with OSC. Case ID: '', VStr (uuid4_hex ev),
                                    VStr '' for email '', customerEmailId, VStr ''.''])])
                     1 [VStr ''Created via OSC''] t))
           else (Inr None, t))))"

subsection \<open>\<open>calculate_refund_node\<close> (lines 755 to 786)\<close>

text \<open>The \<open>try\<close> block of lines 762 to 781: the values of \<open>is_refundable\<close>,
  \<open>refund_amount\<close> and \<open>message\<close> and the trail after line 781, or \<open>None\<close> when a statement
  of it raises. \<open>>=\<close> and the arithmetic raise TypeError unless both sides are numbers.\<close>

definition calculate_try ::
  "env \<Rightarrow> store \<Rightarrow> state \<Rightarrow> trail \<Rightarrow> pyval \<Rightarrow> pyval \<Rightarrow> pyval \<Rightarrow> pyval \<Rightarrow> pyval
     \<Rightarrow> ((pyval \<times> pyval \<times> pyval) \<times> trail) option" where
  "calculate_try ev db st t is_refundable customerEmailId customer_id product_id purchaseOrderNumber =
     (case st ''order_amount'' of
        None \<Rightarrow> None
      | Some total_price \<Rightarrow>
     (case found (orders db) [(''order_number'', purchaseOrderNumber), (''customer_id'', customer_id)] of
        None \<Rightarrow> None
      | Some order \<Rightarrow>
     (case col order ''created_at'' of
        None \<Rightarrow> None
      | Some order_created_at \<Rightarrow>
     (case found (refund_policies db) [(''product_id'', product_id)] of
        None \<Rightarrow> None
      | Some policies \<Rightarrow>
     (case col policies ''refund_window_days'' of
        None \<Rightarrow> None
      | Some refund_window_days \<Rightarrow>
     (case col policies ''refund_percentage'' of
        None \<Rightarrow> None
      | Some refund_percentage \<Rightarrow>
     (case (case order_created_at of VStr s \<Rightarrow> strptime_date ev s | _ \<Rightarrow> None) of
        None \<Rightarrow> None
      | Some order_date \<Rightarrow>
          (let date_diff = today ev - order_date in
     (case number_of refund_window_days of
        None \<Rightarrow> None
      | Some window \<Rightarrow>
     (case (if window \<ge> of_int date_diff
            then (case (number_of total_price, number_of refund_percentage) of
                    (Some tp, Some pct) \<Rightarrow>
                      Some (is_refundable, VFloat (tp * pct / 100),
                            VFmt [VStr ''Allowed refund amount is '', VFloat (tp * pct / 100)])
                  | _ \<Rightarrow> None)
            else Some (VBool False, VFloat 0,
                       VStr ''Refund cannot be processed as refund window has passed.'')) of
        None \<Rightarrow> None
      | Some (is_refundable', refund_amount, message) \<Rightarrow>
     (case st ''run_id'' of
        None \<Rightarrow> None
      | Some rid \<Rightarrow>
          Some ((is_refundable', refund_amount, message),
                log_step rid ''refund_calculation'' (VDict [(''email'', customerEmailId)])
                  (VDict [(''refund_amount'', refund_amount), (''rationale'', message)])
                  1 [VStr ''Calculated via DB''] t))))))))))))"

text \<open>After the \<open>except\<close> block (lines 782 to 785) has logged, line 786 reads
  \<open>refund_amount\<close>, which the \<open>try\<close> block did not reach to bind.\<close>

definition calculate_refund_node :: "env \<Rightarrow> store \<Rightarrow> state \<Rightarrow> trail \<Rightarrow> outcome" where
  "calculate_refund_node ev db st t =
     (case need st ''is_refundable'' of
        Inl e \<Rightarrow> (Inl e, t)
      | Inr is_refundable \<Rightarrow>
     (case need st ''customerEmailId'' of
        Inl e \<Rightarrow> (Inl e, t)
      | Inr customerEmailId \<Rightarrow>
     (case need st ''customer_id'' of
        Inl e \<Rightarrow> (Inl e, t)
      | Inr customer_id \<Rightarrow>
     (case need st ''product_id'' of
        Inl e \<Rightarrow> (Inl e, t)
      | Inr product_id \<Rightarrow>
     (case need st ''purchaseOrderNumber'' of
        Inl e \<Rightarrow> (Inl e, t)
      | Inr purchaseOrderNumber \<Rightarrow>
          (if py_truthy is_refundable then
             (case calculate_try ev db st t is_refundable customerEmailId customer_id product_id
                     purchaseOrderNumber of
                Some ((is_refundable', refund_amount, message), t') \<Rightarrow>
                  (Inr (Some (merged st [''is_refundable'' \<mapsto> is_refundable',
                                          ''refund_amount'' \<mapsto> refund_amount,
                                          ''message'' \<mapsto> message])), t')
              | None \<Rightarrow>
                  (case need st ''run_id'' of
                     Inl e \<Rightarrow> (Inl e, t)
                   | Inr rid \<Rightarrow>
                       (Inl UnboundLocalError,
                        log_step rid ''OSC_case_creation'' (VDict [(''email'', customerEmailId)])
                          (VDict [(''refund_amount'', VFloat 0),
                                  (''rationale'', VStr ''Could not process refund. Please check manually.'')])
                          (3 / 10) [VStr ''Calculated via DB''] t)))
           else (Inr None, t)))))))"

subsection \<open>\<open>refund_info_node\<close> (lines 788 to 794)\<close>

definition refund_info_node :: "state \<Rightarrow> trail \<Rightarrow> outcome" where
  "refund_info_node st t =
     (case need st ''is_refundable'' of
        Inl e \<Rightarrow> (Inl e, t)
      | Inr is_refundable \<Rightarrow>
     (case need st ''customerEmailId'' of
        Inl e \<Rightarrow> (Inl e, t)
      | Inr customerEmailId \<Rightarrow>
          (if py_truthy is_refundable then
             (case need st ''run_id'' of
                Inl e \<Rightarrow> (Inl e, t)
              | Inr rid \<Rightarrow>
                  (Inr (Some (merged st [''avg_confidence'' \<mapsto> VStr ''Hello''])),
                   log_step rid ''refund_info_node'' (VDict [(''email'', customerEmailId)])
                     (VDict [(''rationale'',
                              VStr ''Notification email sent to example@example.com for refund approval.'')])
                     1 [VStr ''LLM''] t))
           else (Inr (Some (merged st [''avg_confidence'' \<mapsto> VStr ''Hello''])), t))))"

subsection \<open>\<open>build_refund_graph\<close>, \<open>build_support_graph\<close>, \<open>build_sales_graph\<close>\<close>

definition build_refund_graph :: "env \<Rightarrow> store \<Rightarrow> state \<Rightarrow> trail \<Rightarrow> run" where
  "build_refund_graph ev db st t =
     run_node refund_info_node
       (run_node (calculate_refund_node ev db)
         (run_node (create_refund_case_node ev)
           (run_node (refund_validation_node db)
             (run_node (extract_details_node ev) (Inr st, t)))))"

text \<open>Lines 882 to 915 and 846 to 880: the sub-router, then the node its path map
  selects. The nodes other than the refund graph are parameters, \<open>nodes\<close> giving the node
  registered under a name.\<close>

definition build_support_graph :: "env \<Rightarrow> store \<Rightarrow> (string \<Rightarrow> node) \<Rightarrow> state \<Rightarrow> trail \<Rightarrow> run" where
  "build_support_graph ev db nodes st t =
     (case run_node support_route_node (Inr st, t) of
        (Inl e, t1) \<Rightarrow> (Inl e, t1)
      | (Inr st1, t1) \<Rightarrow>
          (case resolve_branch build_support_graph_path_map (after_route ''Other support'' st1) of
             Inl e \<Rightarrow> (Inl e, t1)
           | Inr n \<Rightarrow>
               run_node (if n = ''refund'' then as_node (build_refund_graph ev db) else nodes n)
                 (Inr st1, t1)))"

definition build_sales_graph :: "(string \<Rightarrow> node) \<Rightarrow> state \<Rightarrow> trail \<Rightarrow> run" where
  "build_sales_graph nodes st t =
     (case run_node sales_route_node (Inr st, t) of
        (Inl e, t1) \<Rightarrow> (Inl e, t1)
      | (Inr st1, t1) \<Rightarrow>
          (case resolve_branch build_sales_graph_path_map (after_route ''Other sales'' st1) of
             Inl e \<Rightarrow> (Inl e, t1)
           | Inr n \<Rightarrow> run_node (nodes n) (Inr st1, t1)))"

section \<open>Knowledge retrieval (kb.py)\<close>

text \<open>
  A row of \<open>kb_chunks\<close>: its text (\<open>None\<close> is NULL) and its embedding, \<open>None\<close> when
  \<open>embedding_json\<close> is NULL or empty, otherwise the vector the JSON text parses to.
  An \<open>embedder\<close> is \<open>llm.get_embeddings()\<close> when it is not \<open>None\<close>: its \<open>embed_query\<close>,
  and with it the numeric library's \<open>linalg.norm\<close>. Floats are idealised as rationals.
\<close>

record kb_chunk =
  chunk_text :: "string option"
  embedding_json :: "rat list option"

record embedder =
  embed_query :: "string \<Rightarrow> rat list"
  linalg_norm :: "rat list \<Rightarrow> rat"

text \<open>\<open>_cosine\<close> (lines 68 to 73), on vectors of one length\<close>

definition cosine :: "embedder \<Rightarrow> rat list \<Rightarrow> rat list \<Rightarrow> rat" where
  "cosine em a b =
     (let na = linalg_norm em a; nb = linalg_norm em b
      in if na = 0 \<or> nb = 0 then 0
         else sum_list (map (\<lambda>(x, y). x * y) (zip a b)) / (na * nb))"

text \<open>\<open>xs[:k]\<close> for an int \<open>k\<close>: a negative \<open>k\<close> drops the last \<open>-k\<close> elements.\<close>

definition slice_to :: "int \<Rightarrow> 'a list \<Rightarrow> 'a list" where
  "slice_to k xs = (if 0 \<le> k then take (nat k) xs else take (length xs - nat (- k)) xs)"

text \<open>\<open>len(q.intersection(w)) / max(1, len(q))\<close>\<close>

definition overlap_score :: "string set \<Rightarrow> string set \<Rightarrow> rat" where
  "overlap_score q w = of_nat (card (q \<inter> w)) / of_nat (max 1 (card q))"

text \<open>\<open>set(s.lower().split())\<close>\<close>

definition word_set :: "string \<Rightarrow> string set" where
  "word_set s = set (split (lower s))"

text \<open>Lines 102 to 105, one pass of the loop: the pair appended to \<open>scored\<close>.\<close>

definition scored_row :: "string set \<Rightarrow> kb_chunk \<Rightarrow> rat \<times> string option" where
  "scored_row q r =
     (overlap_score q (word_set (case chunk_text r of None \<Rightarrow> [] | Some tx \<Rightarrow> tx)), chunk_text r)"

text \<open>Lines 100 to 107: the scored list after the stable descending sort.\<close>

definition keyword_scored :: "kb_chunk list \<Rightarrow> string \<Rightarrow> (rat \<times> string option) list" where
  "keyword_scored rows query =
     sort_key (\<lambda>p. - fst p) (map (scored_row (word_set query)) rows)"

text \<open>Line 108: \<open>[t for _, t in scored[:k] if t.strip()]\<close>; \<open>strip\<close> on a NULL text is an
  AttributeError.\<close>

definition nonblank :: "rat \<times> string option \<Rightarrow> bool" where
  "nonblank p = (case snd p of None \<Rightarrow> False | Some tx \<Rightarrow> strip tx \<noteq> [])"

definition keep_nonblank :: "(rat \<times> string option) list \<Rightarrow> error + string option list" where
  "keep_nonblank scored =
     (if list_ex (\<lambda>p. snd p = None) scored then Inl AttributeError
      else Inr (map snd (filter nonblank scored)))"

definition retrieve_context ::
  "embedder option \<Rightarrow> kb_chunk list \<Rightarrow> string \<Rightarrow> int \<Rightarrow> error + string option list" where
  "retrieve_context emb rows query k =
     (if rows = [] then Inr []
      else (case (if list_ex (\<lambda>r. embedding_json r \<noteq> None) rows then emb else None) of
              Some em \<Rightarrow>
                Inr (map snd (slice_to k
                       (sort_key (\<lambda>p. - fst p)
                          (List.map_filter
                             (\<lambda>r. map_option (\<lambda>v. (cosine em (embed_query em query) v, chunk_text r))
                                    (embedding_json r))
                             rows))))
            | None \<Rightarrow> keep_nonblank (slice_to k (keyword_scored rows query))))"

section \<open>\<open>sales_node\<close> (graph.py, lines 393 to 501)\<close>

subsection \<open>The pricing computation (lines 427 to 453)\<close>

text \<open>Line 443\<close>

definition proposed_discount :: "rat \<Rightarrow> rat" where
  "proposed_discount max_disc = min max_disc (8 / 10 * max_disc)"

text \<open>Lines 431 and 432: \<open>float(p[c]) if c in p.keys() and p[c] is not None else dflt\<close>\<close>

definition policy_number :: "env \<Rightarrow> row \<Rightarrow> string \<Rightarrow> rat \<Rightarrow> error + rat" where
  "policy_number ev p c dflt =
     (case col p c of
        None \<Rightarrow> Inr dflt
      | Some VNone \<Rightarrow> Inr dflt
      | Some v \<Rightarrow> (case py_float ev v of None \<Rightarrow> Inl ValueError | Some x \<Rightarrow> Inr x))"

text \<open>Lines 427 to 432: \<open>max_disc\<close> and \<open>approval_thr\<close>\<close>

definition pricing_limits :: "env \<Rightarrow> row list \<Rightarrow> error + rat \<times> rat" where
  "pricing_limits ev policies =
     (case policies of
        [] \<Rightarrow> Inr (10, 15)
      | p # ps \<Rightarrow>
          (case policy_number ev p ''max_discount_percent'' 10 of
             Inl e \<Rightarrow> Inl e
           | Inr max_disc \<Rightarrow>
               (case policy_number ev p ''approval_threshold'' 15 of
                  Inl e \<Rightarrow> Inl e
                | Inr approval_thr \<Rightarrow> Inr (max_disc, approval_thr))))"

text \<open>\<open>float(r["base_price"] or 0.0)\<close>\<close>

definition base_price :: "env \<Rightarrow> row \<Rightarrow> error + rat" where
  "base_price ev r =
     (case col r ''base_price'' of
        None \<Rightarrow> Inl IndexError
      | Some v \<Rightarrow>
          (case py_float ev (if py_truthy v then v else VFloat 0) of
             None \<Rightarrow> Inl ValueError
           | Some x \<Rightarrow> Inr x))"

text \<open>Lines 441 to 453, one pass of the loop.\<close>

definition offer :: "env \<Rightarrow> pyval \<Rightarrow> rat \<Rightarrow> rat \<Rightarrow> rat \<times> row \<Rightarrow> error + pyval" where
  "offer ev tier max_disc approval_thr br =
     (case br of
        (base, r) \<Rightarrow>
          (let disc = proposed_discount max_disc;
               total_price = base * (1 - disc / 100);
               compliant = (disc \<le> max_disc \<and> disc < approval_thr)
           in (case col r ''name'' of
                 None \<Rightarrow> Inl IndexError
               | Some name \<Rightarrow>
                   Inr (VDict
                     [(''option_name'', VFmt [name, VStr '' (bundle-ready)'']),
                      (''total_price'', VFloat (round2 ev total_price)),
                      (''discount_percent'', VFloat (round2 ev disc)),
                      (''compliant'', VBool compliant),
                      (''evidence'',
                       VList [VFmt [VStr ''base_price='', VFloat base], VFmt [VStr ''tier='', tier],
                              VFmt [VStr ''max_discount='', VFloat max_disc],
                              VFmt [VStr ''approval_threshold='', VFloat approval_thr]]),
                      (''reasoning'',
                       VStr ''Discount proposed within policy limits; if approval needed, route to human approval.'')]))))"

text \<open>\<open>[f(x) for x in xs]\<close> where \<open>f\<close> may raise: the first exception ends it.\<close>

fun collect :: "('a \<Rightarrow> error + 'b) \<Rightarrow> 'a list \<Rightarrow> error + 'b list" where
  "collect f [] = Inr []"
| "collect f (x # xs) =
     (case f x of
        Inl e \<Rightarrow> Inl e
      | Inr y \<Rightarrow> (case collect f xs of Inl e \<Rightarrow> Inl e | Inr ys \<Rightarrow> Inr (y # ys)))"

text \<open>Lines 437 and 438: \<open>top5\<close> is the first five rows of the catalog sorted by ascending
  price, each with its price.\<close>

definition priced_row :: "env \<Rightarrow> row \<Rightarrow> error + (rat \<times> row)" where
  "priced_row ev r = (case base_price ev r of Inl e \<Rightarrow> Inl e | Inr b \<Rightarrow> Inr (b, r))"

definition top5 :: "env \<Rightarrow> row list \<Rightarrow> error + (rat \<times> row) list" where
  "top5 ev prows =
     (case collect (priced_row ev) prows of
        Inl e \<Rightarrow> Inl e
      | Inr priced \<Rightarrow> Inr (take 5 (sort_key fst priced)))"

text \<open>Lines 427 to 453 after the queries of lines 426 and 436: the list \<open>offers\<close>, from the
  policy rows and the catalog rows the queries gave.\<close>

definition sales_pricing_offers :: "env \<Rightarrow> pyval \<Rightarrow> row list \<Rightarrow> row list \<Rightarrow> error + pyval list" where
  "sales_pricing_offers ev tier policies prows =
     (case pricing_limits ev policies of
        Inl e \<Rightarrow> Inl e
      | Inr (max_disc, approval_thr) \<Rightarrow>
          (case top5 ev prows of
             Inl e \<Rightarrow> Inl e
           | Inr rows5 \<Rightarrow> collect (offer ev tier max_disc approval_thr) rows5))"

subsection \<open>The node\<close>

text \<open>
  \<open>_sql_fetchone\<close> and \<open>_sql_fetchall\<close> take their parameters as \<open>*params\<close>. \<open>sales_node\<close>
  calls them with one argument that is itself a tuple, \<open>(x,)\<close>, so the driver is asked to
  bind a tuple to the one placeholder. The tuple \<open>(x,)\<close> is \<open>VList [x]\<close> here, which
  \<open>bindable\<close> refuses.
\<close>

text \<open>Line 402: \<open>cust["tier"] if cust and "tier" in cust.keys() else "Standard"\<close>\<close>

definition customer_tier :: "row option \<Rightarrow> pyval" where
  "customer_tier cust =
     (case cust of
        None \<Rightarrow> VStr ''Standard''
      | Some r \<Rightarrow>
          (case (if r \<noteq> [] then map_of r ''tier'' else None) of
             None \<Rightarrow> VStr ''Standard''
           | Some v \<Rightarrow> v))"

text \<open>Lines 407 to 421\<close>

definition sales_order_branch ::
  "store \<Rightarrow> state \<Rightarrow> trail \<Rightarrow> string \<Rightarrow> row option \<Rightarrow> pyval list \<Rightarrow> outcome" where
  "sales_order_branch db st t text cust evid =
     (case (case cust of
              None \<Rightarrow> Inr []
            | Some r \<Rightarrow>
                (if r = [] then Inr []
                 else (case col r ''customer_id'' of
                         None \<Rightarrow> Inl IndexError
                       | Some cid \<Rightarrow> sql_fetchall (orders db) [(''customer_id'', VList [cid])]))) of
        Inl e \<Rightarrow> (Inl e, t)
      | Inr ords \<Rightarrow>
          (case (case ords of
                   [] \<Rightarrow>
                     Inr (VStr ''No order found for this customer in orders table.'',
                          VStr ''orders: 0 rows'')
                 | first_row # rest \<Rightarrow>
                     (case col first_row ''order_number'' of
                        None \<Rightarrow> Inl IndexError
                      | Some number \<Rightarrow>
                     (case col first_row ''status'' of
                        None \<Rightarrow> Inl IndexError
                      | Some status \<Rightarrow>
                     (case col first_row ''tracking_number'' of
                        None \<Rightarrow> Inl IndexError
                      | Some tracking \<Rightarrow>
                          Inr (VFmt [VStr ''Found order '', number, VStr '' status='', status,
                                     VStr '' tracking='', tracking, VStr ''.''],
                               VFmt [VStr ''orders: '', VInt (int (length ords)), VStr '' rows'']))))) of
             Inl e \<Rightarrow> (Inl e, t)
           | Inr (summary, line) \<Rightarrow>
               (case need st ''run_id'' of
                  Inl e \<Rightarrow> (Inl e, t)
                | Inr rid \<Rightarrow>
                    (Inr (Some (merged st
                            [''intent'' \<mapsto> VStr ''Order related query'',
                             ''summary'' \<mapsto> summary,
                             ''recommendations'' \<mapsto> VList [],
                             ''offers'' \<mapsto> VList [],
                             ''drafted_email'' \<mapsto> VNone,
                             ''sales_confidence'' \<mapsto> VFloat (8 / 10)])),
                     log_step rid ''sales_fulfillment'' (VDict [(''text'', VStr (take 300 text))])
                       (VDict [(''intent'', VStr ''Order related query'')]) (8 / 10)
                       (evid @ [line]) t))))"

text \<open>Line 433: the evidence line of the policy\<close>

definition policy_evidence :: "row list \<Rightarrow> rat \<Rightarrow> rat \<Rightarrow> pyval list" where
  "policy_evidence policies max_disc approval_thr =
     (case policies of
        [] \<Rightarrow> []
      | p # ps \<Rightarrow>
          [VFmt [VStr ''pricing_policy: '',
                 (case col p ''policy_name'' of None \<Rightarrow> VStr ''n/a'' | Some n \<Rightarrow> n),
                 VStr '' max_discount='', VFloat max_disc,
                 VStr '' approval_threshold='', VFloat approval_thr]])"

text \<open>Lines 424 to 457\<close>

definition sales_pricing_branch ::
  "env \<Rightarrow> store \<Rightarrow> state \<Rightarrow> trail \<Rightarrow> pyval \<Rightarrow> pyval list \<Rightarrow> outcome" where
  "sales_pricing_branch ev db st t tier evid =
     (case sql_fetchall (pricing_policies db) [(''customer_tier'', VList [tier]), (''active'', VInt 1)] of
        Inl e \<Rightarrow> (Inl e, t)
      | Inr policies \<Rightarrow>
     (case pricing_limits ev policies of
        Inl e \<Rightarrow> (Inl e, t)
      | Inr (max_disc, approval_thr) \<Rightarrow>
     (case sql_fetchall (products db) [] of
        Inl e \<Rightarrow> (Inl e, t)
      | Inr prows \<Rightarrow>
     (case sales_pricing_offers ev tier policies prows of
        Inl e \<Rightarrow> (Inl e, t)
      | Inr offers \<Rightarrow>
     (case need st ''run_id'' of
        Inl e \<Rightarrow> (Inl e, t)
      | Inr rid \<Rightarrow>
          (Inr (Some (merged st
                  [''intent'' \<mapsto> VStr ''Best price offer and bundling related query'',
                   ''summary'' \<mapsto> VStr ''Prepared top pricing/bundling options honoring discount policy.'',
                   ''recommendations'' \<mapsto> VList [],
                   ''offers'' \<mapsto> VList offers,
                   ''drafted_email'' \<mapsto> VNone,
                   ''sales_confidence'' \<mapsto> VFloat (77 / 100)])),
           log_step rid ''sales_pricing'' (VDict [(''tier'', tier)])
             (VDict [(''offers'', VInt (int (length offers)))]) (77 / 100)
             (evid @ policy_evidence policies max_disc approval_thr) t))))))"

text \<open>Lines 464 to 467 and 471 to 477, one pass of each loop.\<close>

definition scored_product :: "env \<Rightarrow> string set \<Rightarrow> row \<Rightarrow> error + (rat \<times> row)" where
  "scored_product ev q r =
     (case col r ''name'' of
        None \<Rightarrow> Inl IndexError
      | Some name \<Rightarrow>
     (case col r ''description'' of
        None \<Rightarrow> Inl IndexError
      | Some description \<Rightarrow>
     (case col r ''category'' of
        None \<Rightarrow> Inl IndexError
      | Some category \<Rightarrow>
          Inr (overlap_score q
                 (word_set (str_of ev name @ '' '' @ str_of ev description @ '' '' @ str_of ev category)),
               r))))"

definition recommendation :: "rat \<times> row \<Rightarrow> error + pyval" where
  "recommendation sr =
     (case sr of
        (score, r) \<Rightarrow>
          (case col r ''product_id'' of
             None \<Rightarrow> Inl IndexError
           | Some product_id \<Rightarrow>
          (case col r ''name'' of
             None \<Rightarrow> Inl IndexError
           | Some name \<Rightarrow>
          (case col r ''category'' of
             None \<Rightarrow> Inl IndexError
           | Some category \<Rightarrow>
               Inr (VDict
                 [(''product_id'', product_id),
                  (''name'', name),
                  (''purpose'', VFmt [VStr ''Matches category '', category]),
                  (''score'', VFloat (min 1 (score * 3))),
                  (''reasoning'',
                   VStr ''Keyword match between email and product metadata; refine with KB/LLM when available.'')])))))"

text \<open>Lines 460 to 501. The fixed wording of the drafted reply is abbreviated.\<close>

definition sales_recommend_branch ::
  "env \<Rightarrow> store \<Rightarrow> state \<Rightarrow> trail \<Rightarrow> pyval \<Rightarrow> string \<Rightarrow> pyval list \<Rightarrow> outcome" where
  "sales_recommend_branch ev db st t email text evid =
     (case sql_fetchall (products db) [] of
        Inl e \<Rightarrow> (Inl e, t)
      | Inr prows \<Rightarrow>
     (case collect (scored_product ev (set (split text))) prows of
        Inl e \<Rightarrow> (Inl e, t)
      | Inr scored \<Rightarrow>
     (case collect recommendation (take 5 (sort_key (\<lambda>p. - fst p) scored)) of
        Inl e \<Rightarrow> (Inl e, t)
      | Inr recs \<Rightarrow>
     (case (if contains text ''need'' \<or> contains text ''requirement''
            then (case subscript email ''subject'' of
                    Inl e \<Rightarrow> Inl e
                  | Inr subj \<Rightarrow>
                      Inr (VFmt [VStr ''Subject: Re: '', subj, VStr '' clarifying questions, Sales Team'']))
            else Inr VNone) of
        Inl e \<Rightarrow> (Inl e, t)
      | Inr drafted \<Rightarrow>
     (case need st ''run_id'' of
        Inl e \<Rightarrow> (Inl e, t)
      | Inr rid \<Rightarrow>
          (let conf = (if recs \<noteq> [] then 7 / 10 else 5 / 10)
           in (Inr (Some (merged st
                     [''intent'' \<mapsto> VStr ''Specific product related inquiry'',
                      ''summary'' \<mapsto> VStr ''Recommended products based on customer ask and product catalog evid.'',
                      ''recommendations'' \<mapsto> VList recs,
                      ''offers'' \<mapsto> VList [],
                      ''drafted_email'' \<mapsto> drafted,
                      ''sales_confidence'' \<mapsto> VFloat conf])),
               log_step rid ''sales_recommend'' (VDict [(''email'', email)])
                 (VDict [(''recs'', VInt (int (length recs)))]) conf evid t)))))))"

text \<open>Lines 393 to 406 and 423, and the branches.\<close>

definition sales_node :: "env \<Rightarrow> store \<Rightarrow> state \<Rightarrow> trail \<Rightarrow> outcome" where
  "sales_node ev db st t =
     (case need st ''email'' of
        Inl e \<Rightarrow> (Inl e, t)
      | Inr email \<Rightarrow>
     (case email_text email of
        Inl e \<Rightarrow> (Inl e, t)
      | Inr tx \<Rightarrow>
     (case subscript email ''sender_email'' of
        Inl e \<Rightarrow> (Inl e, t)
      | Inr sender \<Rightarrow>
     (case sql_fetchone (customers db) [(''email'', VList [sender])] of
        Inl e \<Rightarrow> (Inl e, t)
      | Inr cust \<Rightarrow>
          (let text = lower tx;
               force_intent = get_or st ''intent'' VNone;
               tier = customer_tier cust;
               evid = [VFmt [VStr ''Customer tier: '', tier]]
           in if force_intent = VStr ''Order related query''
                 \<or> (contains text ''order''
                     \<and> (contains text ''where'' \<or> contains text ''status'' \<or> contains text ''track''))
              then sales_order_branch db st t text cust evid
              else if force_intent = VStr ''Best price offer and bundling related query''
                      \<or> any_in [''price'', ''discount'', ''offer'', ''bundle'', ''bundling'', ''quote''] text
              then sales_pricing_branch ev db st t tier evid
              else sales_recommend_branch ev db st t email text evid)))))"

section \<open>\<open>formulate_response\<close> (graph.py, lines 827 to 828) and the conditional edges\<close>

definition formulate_response :: "state \<Rightarrow> trail \<Rightarrow> outcome" where
  "formulate_response st t =
     (Inr (Some (merged st [''kb_context'' \<mapsto> VStr ''ctx'', ''kb_confidence'' \<mapsto> VStr ''conf''])), t)"

text \<open>The conditional edges of the three graphs: each path map with the default of its
  selector.\<close>

definition conditional_fan_outs :: "((string \<times> string) list \<times> string) list" where
  "conditional_fan_outs =
     [(build_graph_path_map, ''unknown''),
      (build_support_graph_path_map, ''Other support''),
      (build_sales_graph_path_map, ''Other sales'')]"

section \<open>Audit events per step\<close>

text \<open>The steps of the graphs that are modelled above, each with a flag: whether the step
  logs only when the state is refundable.\<close>

definition refundable :: "state \<Rightarrow> bool" where
  "refundable st = (case st ''is_refundable'' of None \<Rightarrow> False | Some v \<Rightarrow> py_truthy v)"

definition steps :: "env \<Rightarrow> store \<Rightarrow> (node \<times> bool) list" where
  "steps ev db =
     [(classify_node ev, False), (route_node, False), (support_route_node, False),
      (sales_route_node, False), (unknown_node, False), (finalize_node, False),
      (present_node, False), (extract_details_node ev, False),
      (refund_validation_node db, False), (create_refund_case_node ev, True),
      (calculate_refund_node ev db, True), (refund_info_node, True)]"

text \<open>\<open>logs f gated\<close>: whatever \<open>f\<close> does, it leaves the rows written before in place
  and adds at most one row after them; when it returns it has added exactly one row, or, if
  it is gated and the state is not refundable, none.\<close>

definition logs :: "node \<Rightarrow> bool \<Rightarrow> bool" where
  "logs f gated =
     (\<forall>st t r t'. f st t = (r, t') \<longrightarrow>
        (\<exists>es. t' = t @ es \<and> length es \<le> 1
            \<and> (\<not> isl r \<longrightarrow> length es = (if gated \<and> \<not> refundable st then 0 else 1))))"

section \<open>Example data\<close>

text \<open>A small store and two environments, on 3 November 2026 (day 739923): one without
  an API key, one whose model answers every prompt with the extraction of one order number.\<close>

definition example_dates :: "string \<Rightarrow> int option" where
  "example_dates s =
     (if s = ''2026-10-24T09:30:00.000000'' then Some 739913
      else if s = ''2026-09-24T09:30:00.000000'' then Some 739883
      else None)"

text \<open>\<open>round(x, 2)\<close> and \<open>str(v)\<close> on the values of the examples only: the examples round
  0.984 and 99.016 and otherwise values with at most two decimals, which stay as they are,
  and they print strings and NULL.\<close>

definition example_round :: "rat \<Rightarrow> rat" where
  "example_round x =
     (if x = 984 / 1000 then 98 / 100 else if x = 99016 / 1000 then 9902 / 100 else x)"

definition example_str :: "pyval \<Rightarrow> string" where
  "example_str v = (case v of VStr s \<Rightarrow> s | _ \<Rightarrow> ''None'')"

definition fallback_env :: env where
  "fallback_env =
     \<lparr>chat = None, float_of_str = (\<lambda>s. None), strptime_date = example_dates,
      today = 739923, uuid4_hex = ''9f1c2e7a5b3d4c6e8a0b1d2f3e4c5a6b'',
      round2 = example_round, str_of = example_str\<rparr>"

definition example_reply :: "string \<Rightarrow> pyval" where
  "example_reply po =
     VDict [(''customerEmailId'', VStr ''alice@example.com''), (''purchaseOrderNumber'', VStr po),
            (''articleDoi'', VStr ''unidentified''), (''refundReason'', VStr ''damaged''),
            (''confidence'', VFloat (9 / 10)), (''rationale'', VStr ''order number found in body'')]"

definition oracle_env :: "string \<Rightarrow> env" where
  "oracle_env po = fallback_env\<lparr>chat := Some (\<lambda>prompt. Some (example_reply po))\<rparr>"

definition example_db :: store where
  "example_db =
     \<lparr>customers =
        [[(''customer_id'', VInt 7), (''email'', VStr ''alice@example.com''), (''name'', VStr ''Alice''),
          (''tier'', VStr ''Gold'')]],
      orders =
        [[(''order_number'', VStr ''PO-10''), (''customer_id'', VInt 7), (''product_id'', VStr ''P1''),
          (''status'', VStr ''delivered''), (''total_amount'', VInt 1000),
          (''created_at'', VStr ''2026-10-24T09:30:00.000000'')],
         [(''order_number'', VStr ''PO-40''), (''customer_id'', VInt 7), (''product_id'', VStr ''P1''),
          (''status'', VStr ''delivered''), (''total_amount'', VInt 1000),
          (''created_at'', VStr ''2026-09-24T09:30:00.000000'')],
         [(''order_number'', VStr ''PO-20''), (''customer_id'', VInt 7), (''product_id'', VStr ''P2''),
          (''status'', VStr ''delivered''), (''total_amount'', VInt 300),
          (''created_at'', VStr ''2026-10-24T09:30:00.000000'')],
         [(''order_number'', VStr ''PO-30''), (''customer_id'', VInt 7), (''product_id'', VStr ''P3''),
          (''status'', VStr ''delivered''), (''total_amount'', VInt 80),
          (''created_at'', VStr ''2026-10-24T09:30:00.000000'')]],
      products =
        [[(''product_id'', VStr ''P1''), (''name'', VStr ''Journal Access''), (''base_price'', VFloat 1000),
          (''category'', VStr ''subscription''), (''is_refundable'', VInt 1)],
         [(''product_id'', VStr ''P2''), (''name'', VStr ''Article Bundle''), (''base_price'', VFloat 300),
          (''category'', VStr ''bundle''), (''is_refundable'', VInt 1)],
         [(''product_id'', VStr ''P3''), (''name'', VStr ''Single Article''), (''base_price'', VNone),
          (''category'', VStr ''article''), (''is_refundable'', VInt 0)]],
      pricing_policies =
        [[(''policy_name'', VStr ''Gold standard''), (''customer_tier'', VStr ''Gold''), (''active'', VInt 1),
          (''max_discount_percent'', VFloat 10), (''approval_threshold'', VFloat 15)]],
      refund_policies =
        [[(''policy_id'', VStr ''RP1''), (''product_id'', VStr ''P1''), (''refund_window_days'', VInt 30),
          (''refund_percentage'', VInt 50)]]\<rparr>"





definition example_chunks :: "kb_chunk list" where
  "example_chunks =
     [\<lparr>chunk_text = Some ''Shipping takes five days'', embedding_json = None\<rparr>,
      \<lparr>chunk_text = Some ''Refund policy for journals'', embedding_json = None\<rparr>,
      \<lparr>chunk_text = Some ''  '', embedding_json = None\<rparr>,
      \<lparr>chunk_text = Some ''The refund window'', embedding_json = None\<rparr>]"

text \<open>States as \<open>refund_validation_node\<close> leaves them for the orders PO-10, PO-40 and
  PO-20, and as it leaves a state it could not validate.\<close>

definition refund_state :: "string \<Rightarrow> string \<Rightarrow> int \<Rightarrow> state" where
  "refund_state po pid amount =
     [''run_id'' \<mapsto> VStr ''run-1'',
      ''customerEmailId'' \<mapsto> VStr ''alice@example.com'',
      ''purchaseOrderNumber'' \<mapsto> VStr po,
      ''customer_id'' \<mapsto> VInt 7,
      ''product_id'' \<mapsto> VStr pid,
      ''is_refundable'' \<mapsto> VInt 1,
      ''order_amount'' \<mapsto> VInt amount]"

definition example_email :: pyval where
  "example_email =
     VDict [(''sender_email'', VStr ''alice@example.com''), (''subject'', VStr ''Refund for PO-10''),
            (''body'', VStr ''Please refund my damaged order PO-10.'')]"

section \<open>State merge\<close>

text \<open>
  Claim C9. The merge is a key-wise overwrite: the merged state has every key of the old
  state, a key the update does not mention keeps its old value, a key the update mentions
  takes the update's value, and so no key is ever removed.
\<close>

theorem merged_overwrite:
  "dom st \<subseteq> dom (merged st updates)
   \<and> dom (merged st updates) = dom st \<union> dom updates
   \<and> (\<forall>k. k \<notin> dom updates \<longrightarrow> merged st updates k = st k)
   \<and> (\<forall>k. k \<in> dom updates \<longrightarrow> merged st updates k = updates k)"
  by (auto simp: merged_def map_add_def dom_def split: option.splits)

theorem merged_overwrite_witness:
  "''route'' \<notin> dom [''intent'' \<mapsto> VStr ''Other''] \<and> ''intent'' \<in> dom [''intent'' \<mapsto> VStr ''Other'']
   \<and> merged [''route'' \<mapsto> VStr ''sales'', ''intent'' \<mapsto> VStr ''x''] [''intent'' \<mapsto> VStr ''Other''] ''route''
       = Some (VStr ''sales'')
   \<and> merged [''route'' \<mapsto> VStr ''sales'', ''intent'' \<mapsto> VStr ''x''] [''intent'' \<mapsto> VStr ''Other''] ''intent''
       = Some (VStr ''Other'')"
  using merged_overwrite [of "[''route'' \<mapsto> VStr ''sales'', ''intent'' \<mapsto> VStr ''x'']"
                             "[''intent'' \<mapsto> VStr ''Other'']"]
  by simp

section \<open>Conditional fan-outs\<close>

lemma resolve_after_route:
  "resolve_branch pm (after_route d st) =
     (case st ''route'' of
        None \<Rightarrow> (case map_of pm d of None \<Rightarrow> Inl KeyError | Some n \<Rightarrow> Inr n)
      | Some v \<Rightarrow> resolve_branch pm v)"
  by (simp add: after_route_def get_or_def resolve_branch_def split: option.splits)

text \<open>
  Claim C2, as the code has it. Each of the three conditional fan-outs resolves a route
  value exactly when it is a key of its path map, and a value that is no key is a KeyError;
  the keys are sales, support, other, unknown at the top level, the six support intents in
  the support graph and the six sales intents in the sales graph. When the route field is
  absent the selector's default is a key, so the fan-out resolves. After \<open>route_node\<close> the
  top-level fan-out always resolves, and to the unknown node for every category other than
  Sales Type and Support Type.
\<close>

theorem fan_out_resolves_listed_routes:
  "(\<forall>(pm, d) \<in> set conditional_fan_outs. \<forall>st.
       (\<forall>k. st ''route'' = Some (VStr k) \<longrightarrow>
            resolve_branch pm (after_route d st)
              = (case map_of pm k of None \<Rightarrow> Inl KeyError | Some n \<Rightarrow> Inr n))
       \<and> (st ''route'' = None \<longrightarrow> (\<exists>n. resolve_branch pm (after_route d st) = Inr n)))
   \<and> map fst build_graph_path_map = [''sales'', ''support'', ''other'', ''unknown'']
   \<and> map fst build_support_graph_path_map = support_intent_list
   \<and> map fst build_sales_graph_path_map = sales_intent_list
   \<and> (\<forall>st t st' t'. route_node st t = (Inr (Some st'), t') \<longrightarrow>
         (\<exists>n. resolve_branch build_graph_path_map (after_route ''unknown'' st') = Inr n
              \<and> (st ''category'' \<noteq> Some (VStr ''Sales Type'')
                   \<and> st ''category'' \<noteq> Some (VStr ''Support Type'') \<longrightarrow> n = ''unknown'')))"
proof (intro conjI)
  show "\<forall>(pm, d) \<in> set conditional_fan_outs. \<forall>st.
       (\<forall>k. st ''route'' = Some (VStr k) \<longrightarrow>
            resolve_branch pm (after_route d st)
              = (case map_of pm k of None \<Rightarrow> Inl KeyError | Some n \<Rightarrow> Inr n))
       \<and> (st ''route'' = None \<longrightarrow> (\<exists>n. resolve_branch pm (after_route d st) = Inr n))"
    by (simp add: conditional_fan_outs_def after_route_def get_or_def resolve_branch_def
          build_graph_path_map_def build_support_graph_path_map_def build_sales_graph_path_map_def)
  show "map fst build_graph_path_map = [''sales'', ''support'', ''other'', ''unknown'']"
    by (simp add: build_graph_path_map_def)
  show "map fst build_support_graph_path_map = support_intent_list"
    by (simp add: build_support_graph_path_map_def support_intent_list_def)
  show "map fst build_sales_graph_path_map = sales_intent_list"
    by (simp add: build_sales_graph_path_map_def sales_intent_list_def)
  show "\<forall>st t st' t'. route_node st t = (Inr (Some st'), t') \<longrightarrow>
         (\<exists>n. resolve_branch build_graph_path_map (after_route ''unknown'' st') = Inr n
              \<and> (st ''category'' \<noteq> Some (VStr ''Sales Type'')
                   \<and> st ''category'' \<noteq> Some (VStr ''Support Type'') \<longrightarrow> n = ''unknown''))"
    by (auto simp: route_node_def need_def get_or_def Let_def merged_def after_route_def
          resolve_branch_def build_graph_path_map_def split: option.splits if_splits)
qed

theorem fan_out_resolves_listed_routes_witness:
  "(build_support_graph_path_map, ''Other support'') \<in> set conditional_fan_outs
   \<and> [''route'' \<mapsto> VStr ''Refund request''] ''route'' = Some (VStr ''Refund request'')
   \<and> resolve_branch build_support_graph_path_map
        (after_route ''Other support'' [''route'' \<mapsto> VStr ''Refund request'']) = Inr ''refund''
   \<and> (Map.empty :: state) ''route'' = None
   \<and> (\<exists>n. resolve_branch build_support_graph_path_map (after_route ''Other support'' Map.empty) = Inr n)"
proof -
  have m: "(build_support_graph_path_map, ''Other support'') \<in> set conditional_fan_outs"
    by (simp add: conditional_fan_outs_def)
  have a: "\<forall>st.
       (\<forall>k. st ''route'' = Some (VStr k) \<longrightarrow>
            resolve_branch build_support_graph_path_map (after_route ''Other support'' st)
              = (case map_of build_support_graph_path_map k of None \<Rightarrow> Inl KeyError | Some n \<Rightarrow> Inr n))
       \<and> (st ''route'' = None \<longrightarrow>
            (\<exists>n. resolve_branch build_support_graph_path_map (after_route ''Other support'' st) = Inr n))"
    using fan_out_resolves_listed_routes [THEN conjunct1, THEN bspec, OF m]
    by (simp only: prod.case)
  have r: "[''route'' \<mapsto> VStr ''Refund request''] ''route'' = Some (VStr ''Refund request'')"
    by simp
  have "resolve_branch build_support_graph_path_map
        (after_route ''Other support'' [''route'' \<mapsto> VStr ''Refund request''])
      = (case map_of build_support_graph_path_map ''Refund request'' of
           None \<Rightarrow> Inl KeyError | Some n \<Rightarrow> Inr n)"
    by (rule a [THEN spec, of "[''route'' \<mapsto> VStr ''Refund request'']", THEN conjunct1,
                THEN spec, of "''Refund request''", THEN mp, OF r])
  then have b: "resolve_branch build_support_graph_path_map
        (after_route ''Other support'' [''route'' \<mapsto> VStr ''Refund request'']) = Inr ''refund''"
    by (simp add: build_support_graph_path_map_def)
  have e: "(Map.empty :: state) ''route'' = None"
    by simp
  have c: "\<exists>n. resolve_branch build_support_graph_path_map
                        (after_route ''Other support'' Map.empty) = Inr n"
    by (rule a [THEN spec, of Map.empty, THEN conjunct2, THEN mp, OF e])
  show ?thesis
    by (intro conjI) (rule m, rule r, rule b, rule e, rule c)
qed

text \<open>
  The claim as the spec states it fails: the support sub-router copies an intent outside the
  six listed ones into \<open>route\<close>, the path map has no key for it and no default branch, and the
  run of the support graph ends with a KeyError.
\<close>

theorem support_fan_out_unmapped_intent_aborts:
  "\<forall>nodes. fst (build_support_graph fallback_env example_db nodes
                  [''run_id'' \<mapsto> VStr ''run-1'', ''intent'' \<mapsto> VStr ''General''] []) = Inl KeyError"
  by (simp add: build_support_graph_def run_node_def support_route_node_def intent_route_node_def
        need_def get_or_def Let_def merged_def after_route_def resolve_branch_def
        build_support_graph_path_map_def)

section \<open>Classification without an oracle\<close>

text \<open>
  Claim C7, at an email with a refund keyword and no API key. The wired \<open>classify_node\<close>
  records the intent Refund request with confidence 0.78 and no category; the keyword
  classifier \<open>classify_node_1\<close> records the category Support Type with confidence 0.78.
\<close>

theorem classify_node_fallback_writes_no_category:
  "(case classify_node fallback_env
          (initial_state ''run-1'' ''alice@example.com'' ''Refund for PO-10''
             ''Please refund my damaged order PO-10.'' VNone) [] of
      (Inr (Some s), t) \<Rightarrow>
        s ''category'' = None \<and> s ''category_confidence'' = None
        \<and> s ''intent'' = Some (VStr ''Refund request'')
        \<and> s ''intent_confidence'' = Some (VFloat (78 / 100))
    | _ \<Rightarrow> False)
   \<and> (case classify_node_1 fallback_env
          (initial_state ''run-1'' ''alice@example.com'' ''Refund for PO-10''
             ''Please refund my damaged order PO-10.'' VNone) [] of
      (Inr (Some s), t) \<Rightarrow>
        s ''category'' = Some (VStr ''Support Type'')
        \<and> s ''category_confidence'' = Some (VFloat (78 / 100))
    | _ \<Rightarrow> False)"
  by code_simp

lemma keyword_intent_cases:
  obtains intent conf rationale where "keyword_intent txt = (intent, conf, rationale)"
  by (cases "keyword_intent txt") auto

text \<open>
  Claim C10. Without an oracle \<open>classify_node\<close> leaves the category field as it found it
  and writes the intent and its confidence. A run started by \<open>app.chat\<close> has no category,
  so \<open>route_node\<close> writes the route other, the fan-out selects the unknown node, and the run
  is classify, route, unknown, finalize, present whatever the sales and support graphs are.
\<close>

theorem fallback_run_takes_unknown_branch:
  assumes "chat ev = None"
  shows "(\<forall>st t st1 t1. classify_node ev st t = (Inr (Some st1), t1) \<longrightarrow>
            st1 ''category'' = st ''category'' \<and> st1 ''intent'' \<noteq> None
            \<and> st1 ''intent_confidence'' \<noteq> None)
       \<and> (\<exists>st1 t1 st2 t2.
            classify_node ev (initial_state rid sender subj body guard) t = (Inr (Some st1), t1)
            \<and> st1 ''category'' = None
            \<and> route_node st1 t1 = (Inr (Some st2), t2)
            \<and> st2 ''route'' = Some (VStr ''other'')
            \<and> resolve_branch build_graph_path_map (after_route ''unknown'' st2) = Inr ''unknown''
            \<and> (\<forall>sales support.
                  build_graph ev sales support (initial_state rid sender subj body guard) t
                  = run_node present_node (run_node finalize_node (run_node unknown_node (Inr st2, t2)))))"
proof (intro conjI allI impI)
  fix st t st1 t1
  assume a: "classify_node ev st t = (Inr (Some st1), t1)"
  show "st1 ''category'' = st ''category''"
    using a assms
    by (auto simp: classify_node_def need_def merged_def split: option.splits sum.splits prod.splits)
  show "st1 ''intent'' \<noteq> None"
    using a assms
    by (auto simp: classify_node_def need_def merged_def split: option.splits sum.splits prod.splits)
  show "st1 ''intent_confidence'' \<noteq> None"
    using a assms
    by (auto simp: classify_node_def need_def merged_def split: option.splits sum.splits prod.splits)
next
  let ?s0 = "initial_state rid sender subj body guard"
  obtain intent conf rationale where
    k: "keyword_intent (lower (subj @ '' '' @ (if length body \<le> 20000 then body else take 20000 body)))
          = (intent, conf, rationale)"
    by (rule keyword_intent_cases)
  define st1 where "st1 = merged ?s0 [''intent'' \<mapsto> VStr intent, ''intent_confidence'' \<mapsto> VFloat conf,
                                    ''intent_rationale'' \<mapsto> VStr rationale]"
  obtain t1 where c: "classify_node ev ?s0 t = (Inr (Some st1), t1)"
    using assms k
    by (simp add: classify_node_def need_def initial_state_def email_text_def subscript_def st1_def)
  have cat: "st1 ''category'' = None" and rid: "st1 ''run_id'' = Some (VStr rid)"
    by (simp_all add: st1_def merged_def initial_state_def)
  define st2 where "st2 = merged st1 [''route'' \<mapsto> VStr ''other'', ''route_confidence'' \<mapsto> VFloat (6 / 10)]"
  obtain t2 where r: "route_node st1 t1 = (Inr (Some st2), t2)"
    using cat rid by (simp add: route_node_def need_def get_or_def st2_def Let_def)
  have ro: "st2 ''route'' = Some (VStr ''other'')"
    by (simp add: st2_def merged_def)
  have br: "resolve_branch build_graph_path_map (after_route ''unknown'' st2) = Inr ''unknown''"
    using ro by (simp add: resolve_branch_def after_route_def get_or_def build_graph_path_map_def)
  have run: "\<forall>sales support. build_graph ev sales support ?s0 t
       = run_node present_node (run_node finalize_node (run_node unknown_node (Inr st2, t2)))"
    using c r br by (simp add: build_graph_def run_node_def)
  show "\<exists>st1 t1 st2 t2.
            classify_node ev ?s0 t = (Inr (Some st1), t1)
            \<and> st1 ''category'' = None
            \<and> route_node st1 t1 = (Inr (Some st2), t2)
            \<and> st2 ''route'' = Some (VStr ''other'')
            \<and> resolve_branch build_graph_path_map (after_route ''unknown'' st2) = Inr ''unknown''
            \<and> (\<forall>sales support.
                  build_graph ev sales support ?s0 t
                  = run_node present_node (run_node finalize_node (run_node unknown_node (Inr st2, t2))))"
    using c cat r ro br run by blast
qed

theorem fallback_run_takes_unknown_branch_witness:
  "chat fallback_env = None
   \<and> (\<exists>st1 t1 st2 t2.
        classify_node fallback_env
          (initial_state ''run-1'' ''alice@example.com'' ''Order a bundle'' ''What is the price?'' VNone) []
          = (Inr (Some st1), t1)
        \<and> st1 ''category'' = None
        \<and> route_node st1 t1 = (Inr (Some st2), t2)
        \<and> st2 ''route'' = Some (VStr ''other'')
        \<and> resolve_branch build_graph_path_map (after_route ''unknown'' st2) = Inr ''unknown''
        \<and> (\<forall>sales support.
              build_graph fallback_env sales support
                (initial_state ''run-1'' ''alice@example.com'' ''Order a bundle'' ''What is the price?'' VNone) []
              = run_node present_node (run_node finalize_node (run_node unknown_node (Inr st2, t2)))))"
proof -
  have h: "chat fallback_env = None"
    by (simp add: fallback_env_def)
  show ?thesis
    by (rule conjI [OF h fallback_run_takes_unknown_branch [OF h, THEN conjunct2]])
qed

section \<open>Refund validation\<close>

lemmas store_simps = found_def sql_fetchone_def sql_fetchall_def row_matches_def sql_eq_def
  bindable_def number_of_def col_def

text \<open>What holds of the step: it leaves the state refundable only if the customer, the
  order and the product were found, the order is not cancelled and the product's flag is
  truthy; the amount it records is then the order's total.\<close>

lemma validation_try_refundable:
  assumes "validation_try db st t ce pon = Some (Inr (Some st'), t')" and "refundable st'"
  shows "\<exists>cust cid ordr pid product v.
           found (customers db) [(''email'', ce)] = Some cust
           \<and> col cust ''customer_id'' = Some cid
           \<and> found (orders db) [(''order_number'', pon), (''customer_id'', cid)] = Some ordr
           \<and> col ordr ''status'' \<noteq> Some (VStr ''cancelled'')
           \<and> col ordr ''product_id'' = Some pid
           \<and> found (products db) [(''product_id'', pid)] = Some product
           \<and> col product ''is_refundable'' = Some v \<and> py_truthy v
           \<and> st' ''order_amount'' = col ordr ''total_amount''"
  using assms
  by (auto simp: validation_try_def refundable_def merged_def split: option.splits if_splits)

lemma refund_validation_refundable_only_if:
  assumes "refund_validation_node db st t = (Inr (Some st'), t')" and "refundable st'"
  shows "\<exists>ce pon cust cid ordr pid product v.
           st ''customerEmailId'' = Some ce \<and> st ''purchaseOrderNumber'' = Some pon
           \<and> found (customers db) [(''email'', ce)] = Some cust
           \<and> col cust ''customer_id'' = Some cid
           \<and> found (orders db) [(''order_number'', pon), (''customer_id'', cid)] = Some ordr
           \<and> col ordr ''status'' \<noteq> Some (VStr ''cancelled'')
           \<and> col ordr ''product_id'' = Some pid
           \<and> found (products db) [(''product_id'', pid)] = Some product
           \<and> col product ''is_refundable'' = Some v \<and> py_truthy v
           \<and> st' ''order_amount'' = col ordr ''total_amount''"
proof -
  from assms(1) obtain ce pon where
    f: "st ''customerEmailId'' = Some ce" "st ''purchaseOrderNumber'' = Some pon"
    by (auto simp: refund_validation_node_def validation_unbound_def need_def split: option.splits)
  have "validation_try db st t ce pon = Some (Inr (Some st'), t')"
  proof (cases "validation_try db st t ce pon")
    case None
    with assms f show ?thesis
      by (auto simp: refund_validation_node_def validation_failed_def need_def refundable_def merged_def
            split: option.splits)
  next
    case (Some r)
    with assms(1) f show ?thesis
      by (simp add: refund_validation_node_def)
  qed
  from validation_try_refundable [OF this assms(2)] f show ?thesis
    by blast
qed

text \<open>With both identifying fields in the state, a customer or an order that is not found
  gives a normal return with \<open>is_refundable = False\<close> and one event of confidence 0.3.\<close>

lemma refund_validation_lookup_miss:
  assumes "st ''customerEmailId'' = Some ce" and "st ''purchaseOrderNumber'' = Some pon"
    and "st ''run_id'' = Some rid"
    and "found (customers db) [(''email'', ce)] = None
         \<or> (\<exists>cust cid. found (customers db) [(''email'', ce)] = Some cust
               \<and> col cust ''customer_id'' = Some cid
               \<and> found (orders db) [(''order_number'', pon), (''customer_id'', cid)] = None)"
  shows "\<exists>st' e. refund_validation_node db st t = (Inr (Some st'), t @ [e])
           \<and> st' ''is_refundable'' = Some (VBool False)
           \<and> step_name e = ''user_authetication'' \<and> confidence e = 3 / 10"
  using assms
  by (auto simp: refund_validation_node_def validation_try_def validation_failed_def need_def
        merged_def log_step_def split: option.splits)

text \<open>
  Claim C3, where the code leaves it. A state without \<open>customerEmailId\<close>, or without
  \<open>purchaseOrderNumber\<close>, makes the step raise UnboundLocalError from its \<open>except\<close> block,
  with no event written. Without an API key \<open>extract_details_node\<close> writes neither field,
  so the refund graph ends there, after the one event of the extraction step.
\<close>

theorem refund_validation_missing_field_raises:
  "refund_validation_node example_db
      [''run_id'' \<mapsto> VStr ''run-1'', ''email'' \<mapsto> example_email,
       ''purchaseOrderNumber'' \<mapsto> VStr ''PO-10''] []
     = (Inl UnboundLocalError, [])
   \<and> refund_validation_node example_db
      [''run_id'' \<mapsto> VStr ''run-1'', ''email'' \<mapsto> example_email,
       ''customerEmailId'' \<mapsto> VStr ''alice@example.com''] []
     = (Inl UnboundLocalError, [])
   \<and> (case build_refund_graph fallback_env example_db
               (initial_state ''run-1'' ''alice@example.com'' ''Refund for PO-10''
                  ''Please refund my damaged order PO-10.'' VNone) [] of
         (Inl e, t) \<Rightarrow> e = UnboundLocalError \<and> map step_name t = [''support_intent'']
       | _ \<Rightarrow> False)"
proof (intro conjI)
  show "refund_validation_node example_db
      [''run_id'' \<mapsto> VStr ''run-1'', ''email'' \<mapsto> example_email,
       ''purchaseOrderNumber'' \<mapsto> VStr ''PO-10''] []
     = (Inl UnboundLocalError, [])"
    by (simp add: refund_validation_node_def validation_unbound_def need_def)
  show "refund_validation_node example_db
      [''run_id'' \<mapsto> VStr ''run-1'', ''email'' \<mapsto> example_email,
       ''customerEmailId'' \<mapsto> VStr ''alice@example.com''] []
     = (Inl UnboundLocalError, [])"
    by (simp add: refund_validation_node_def validation_unbound_def need_def)
  show "case build_refund_graph fallback_env example_db
               (initial_state ''run-1'' ''alice@example.com'' ''Refund for PO-10''
                  ''Please refund my damaged order PO-10.'' VNone) [] of
         (Inl e, t) \<Rightarrow> e = UnboundLocalError \<and> map step_name t = [''support_intent'']
       | _ \<Rightarrow> False"
    by code_simp
qed

section \<open>Refund calculation\<close>

text \<open>
  Claim C1. In a refundable state that carries the order's total, with the order and the
  policy found, the creation timestamp parsed and the policy's numbers numeric, the step
  returns with one event. The days elapsed are today's day number minus the creation day
  number. If they do not exceed the window, the amount is total times percentage over 100
  and the flag is kept; otherwise the amount is 0 and the flag is \<open>False\<close>. No other field
  than the flag, the amount and the message changes.
\<close>

theorem calculate_refund_window:
  assumes "st ''is_refundable'' = Some isr" and "py_truthy isr"
    and "st ''customerEmailId'' = Some ce" and "st ''customer_id'' = Some cid"
    and "st ''product_id'' = Some pid" and "st ''purchaseOrderNumber'' = Some pon"
    and "st ''run_id'' = Some rid"
    and "found (orders db) [(''order_number'', pon), (''customer_id'', cid)] = Some ordr"
    and "col ordr ''total_amount'' = Some amount" and "st ''order_amount'' = Some amount"
    and "number_of amount = Some tp"
    and "col ordr ''created_at'' = Some (VStr created)"
    and "strptime_date ev created = Some order_date"
    and "found (refund_policies db) [(''product_id'', pid)] = Some policy"
    and "col policy ''refund_window_days'' = Some w" and "number_of w = Some window"
    and "col policy ''refund_percentage'' = Some p" and "number_of p = Some pct"
  shows "\<exists>st' e. calculate_refund_node ev db st t = (Inr (Some st'), t @ [e])
           \<and> step_name e = ''refund_calculation''
           \<and> (\<forall>k. k \<notin> {''is_refundable'', ''refund_amount'', ''message''} \<longrightarrow> st' k = st k)
           \<and> (if of_int (today ev - order_date) \<le> window
               then st' ''refund_amount'' = Some (VFloat (tp * pct / 100))
                    \<and> st' ''is_refundable'' = Some isr
               else st' ''refund_amount'' = Some (VFloat 0)
                    \<and> st' ''is_refundable'' = Some (VBool False))"
  using assms
  by (simp add: calculate_refund_node_def calculate_try_def need_def merged_def log_step_def Let_def)

text \<open>Total 1000, percentage 50, window 30: an order created 10 days ago gives 500 and
  stays refundable, an order created 40 days ago gives 0 and is no longer refundable.\<close>

theorem calculate_refund_window_witness:
  "py_truthy (VInt 1)
   \<and> (case calculate_refund_node fallback_env example_db (refund_state ''PO-10'' ''P1'' 1000) [] of
        (Inr (Some s), t) \<Rightarrow>
          s ''refund_amount'' = Some (VFloat 500) \<and> s ''is_refundable'' = Some (VInt 1)
      | _ \<Rightarrow> False)
   \<and> (case calculate_refund_node fallback_env example_db (refund_state ''PO-40'' ''P1'' 1000) [] of
        (Inr (Some s), t) \<Rightarrow>
          s ''refund_amount'' = Some (VFloat 0) \<and> s ''is_refundable'' = Some (VBool False)
      | _ \<Rightarrow> False)"
proof -
  have a: "\<exists>st' e. calculate_refund_node fallback_env example_db (refund_state ''PO-10'' ''P1'' 1000) []
              = (Inr (Some st'), [] @ [e])
           \<and> step_name e = ''refund_calculation''
           \<and> (\<forall>k. k \<notin> {''is_refundable'', ''refund_amount'', ''message''} \<longrightarrow>
                  st' k = refund_state ''PO-10'' ''P1'' 1000 k)
           \<and> (if of_int (today fallback_env - 739913) \<le> (30 :: rat)
               then st' ''refund_amount'' = Some (VFloat (1000 * 50 / 100))
                    \<and> st' ''is_refundable'' = Some (VInt 1)
               else st' ''refund_amount'' = Some (VFloat 0)
                    \<and> st' ''is_refundable'' = Some (VBool False))"
    by (rule calculate_refund_window [where ce = "VStr ''alice@example.com''" and cid = "VInt 7"
          and pid = "VStr ''P1''" and pon = "VStr ''PO-10''" and rid = "VStr ''run-1''"
          and ordr = "hd (orders example_db)" and amount = "VInt 1000"
          and created = "''2026-10-24T09:30:00.000000''"
          and policy = "hd (refund_policies example_db)" and w = "VInt 30" and p = "VInt 50"])
       (simp_all add: refund_state_def example_db_def fallback_env_def example_dates_def store_simps)
  have b: "\<exists>st' e. calculate_refund_node fallback_env example_db (refund_state ''PO-40'' ''P1'' 1000) []
              = (Inr (Some st'), [] @ [e])
           \<and> step_name e = ''refund_calculation''
           \<and> (\<forall>k. k \<notin> {''is_refundable'', ''refund_amount'', ''message''} \<longrightarrow>
                  st' k = refund_state ''PO-40'' ''P1'' 1000 k)
           \<and> (if of_int (today fallback_env - 739883) \<le> (30 :: rat)
               then st' ''refund_amount'' = Some (VFloat (1000 * 50 / 100))
                    \<and> st' ''is_refundable'' = Some (VInt 1)
               else st' ''refund_amount'' = Some (VFloat 0)
                    \<and> st' ''is_refundable'' = Some (VBool False))"
    by (rule calculate_refund_window [where ce = "VStr ''alice@example.com''" and cid = "VInt 7"
          and pid = "VStr ''P1''" and pon = "VStr ''PO-40''" and rid = "VStr ''run-1''"
          and ordr = "hd (tl (orders example_db))" and amount = "VInt 1000"
          and created = "''2026-09-24T09:30:00.000000''"
          and policy = "hd (refund_policies example_db)" and w = "VInt 30" and p = "VInt 50"])
       (simp_all add: refund_state_def example_db_def fallback_env_def example_dates_def store_simps)
  have t10: "today fallback_env - 739913 = 10" and t40: "today fallback_env - 739883 = 40"
    by (simp_all add: fallback_env_def)
  from a obtain s1 e1 where
    a1: "calculate_refund_node fallback_env example_db (refund_state ''PO-10'' ''P1'' 1000) [] = (Inr (Some s1), [e1])"
    and a2: "s1 ''refund_amount'' = Some (VFloat 500)" "s1 ''is_refundable'' = Some (VInt 1)"
    unfolding t10 by auto
  from b obtain s2 e2 where
    b1: "calculate_refund_node fallback_env example_db (refund_state ''PO-40'' ''P1'' 1000) [] = (Inr (Some s2), [e2])"
    and b2: "s2 ''refund_amount'' = Some (VFloat 0)" "s2 ''is_refundable'' = Some (VBool False)"
    unfolding t40 by auto
  show ?thesis
    by (simp add: a1 a2 b1 b2)
qed

text \<open>
  Claim C4, where the code leaves it. The order PO-20 is for a product without a refund
  policy row. The \<open>except\<close> block logs the manual-review event with confidence 0.3, and
  the \<open>return\<close> after it raises UnboundLocalError: the step does not return and writes no
  \<open>is_refundable = False\<close>.
\<close>

theorem calculate_refund_missing_policy_raises:
  "found (refund_policies example_db) [(''product_id'', VStr ''P2'')] = None
   \<and> (case calculate_refund_node fallback_env example_db (refund_state ''PO-20'' ''P2'' 300) [] of
         (Inl e, t) \<Rightarrow>
           e = UnboundLocalError \<and> map step_name t = [''OSC_case_creation'']
           \<and> map confidence t = [3 / 10]
           \<and> map out t = [VDict [(''refund_amount'', VFloat 0),
                                  (''rationale'', VStr ''Could not process refund. Please check manually.'')]]
       | _ \<Rightarrow> False)"
  by code_simp

section \<open>Audit events\<close>

lemma logs_classify: "logs (classify_node ev) False"
  unfolding logs_def
  by (auto simp: classify_node_def need_def log_step_def Let_def split: option.splits sum.splits prod.splits)

lemma logs_route: "logs route_node False"
  unfolding logs_def
  by (auto simp: route_node_def need_def log_step_def Let_def split: option.splits sum.splits prod.splits)

lemma logs_intent_route: "logs (intent_route_node d l) False"
  unfolding logs_def
  by (auto simp: intent_route_node_def need_def log_step_def Let_def split: option.splits sum.splits prod.splits)

lemma logs_unknown: "logs unknown_node False"
  unfolding logs_def
  by (auto simp: unknown_node_def other_node_def need_def log_step_def Let_def split: option.splits sum.splits prod.splits)

lemma logs_finalize: "logs finalize_node False"
  unfolding logs_def
  by (auto simp: finalize_node_def need_def log_step_def Let_def split: option.splits sum.splits prod.splits)

lemma logs_present: "logs present_node False"
  unfolding logs_def
  by (auto simp: present_node_def need_def log_step_def Let_def split: option.splits sum.splits prod.splits)

lemma logs_extract: "logs (extract_details_node ev) False"
  unfolding logs_def
  by (auto simp: extract_details_node_def need_def log_step_def Let_def split: option.splits sum.splits prod.splits)

lemma validation_try_logs:
  "validation_try db st t ce pon = Some (r, t') \<Longrightarrow> \<exists>e. t' = t @ [e]"
  by (auto simp: validation_try_def log_step_def split: option.splits if_splits)

lemma logs_validation: "logs (refund_validation_node db) False"
  unfolding logs_def
  by (auto simp: refund_validation_node_def validation_unbound_def validation_failed_def need_def log_step_def
        split: option.splits sum.splits dest: validation_try_logs)

lemma logs_case: "logs (create_refund_case_node ev) True"
  unfolding logs_def
  by (auto simp: create_refund_case_node_def refundable_def need_def log_step_def split: option.splits sum.splits if_splits)

lemma calculate_try_logs:
  "calculate_try ev db st t isr ce cid pid pon = Some (x, t') \<Longrightarrow> \<exists>e. t' = t @ [e]"
  by (auto simp: calculate_try_def log_step_def Let_def split: option.splits if_splits prod.splits)

lemma logs_calculate: "logs (calculate_refund_node ev db) True"
  unfolding logs_def
  by (auto simp: calculate_refund_node_def refundable_def need_def log_step_def
        split: option.splits sum.splits if_splits prod.splits dest: calculate_try_logs)

lemma logs_info: "logs refund_info_node True"
  unfolding logs_def
  by (auto simp: refund_info_node_def refundable_def need_def log_step_def split: option.splits sum.splits if_splits)

text \<open>
  Claim C5, as the code has it. Every step of \<open>steps\<close> keeps the events written before it
  and adds at most one after them, before it returns, so the trail is in execution order.
  A step that returns has added exactly one event, except the case creation, the calculation
  and the notification step, which add one when \<open>is_refundable\<close> is truthy and none when it
  is not; \<open>formulate_response\<close> adds none.
\<close>

theorem steps_log_at_most_once:
  "(\<forall>(f, gated) \<in> set (steps ev db). logs f gated)
   \<and> (\<forall>st t. snd (formulate_response st t) = t)"
  by (simp add: steps_def logs_classify logs_route logs_intent_route logs_unknown logs_finalize
        logs_present logs_extract logs_validation logs_case logs_calculate logs_info
        support_route_node_def sales_route_node_def formulate_response_def)

theorem steps_log_at_most_once_witness:
  "(create_refund_case_node fallback_env, True) \<in> set (steps fallback_env example_db)
   \<and> refundable (refund_state ''PO-10'' ''P1'' 1000)
   \<and> (\<exists>r t'. create_refund_case_node fallback_env (refund_state ''PO-10'' ''P1'' 1000) [] = (r, t')
               \<and> \<not> isl r \<and> length t' = 1)"
proof -
  have m: "(create_refund_case_node fallback_env, True) \<in> set (steps fallback_env example_db)"
    by (simp add: steps_def)
  have rf: "refundable (refund_state ''PO-10'' ''P1'' 1000)"
    by (simp add: refundable_def refund_state_def)
  have l: "logs (create_refund_case_node fallback_env) True"
    using steps_log_at_most_once [of fallback_env example_db, THEN conjunct1, THEN bspec, OF m]
    by (simp only: prod.case)
  obtain r t' where
    c: "create_refund_case_node fallback_env (refund_state ''PO-10'' ''P1'' 1000) [] = (r, t')"
    by (cases "create_refund_case_node fallback_env (refund_state ''PO-10'' ''P1'' 1000) []")
  have nl: "\<not> isl r"
    using c by (simp add: create_refund_case_node_def need_def refund_state_def) auto
  from l c obtain es where
    e: "t' = [] @ es" "\<not> isl r \<longrightarrow> length es = (if True \<and> \<not> refundable (refund_state ''PO-10'' ''P1'' 1000) then 0 else 1)"
    unfolding logs_def by blast
  from e nl rf have "length t' = 1"
    by simp
  with m rf c nl show ?thesis
    by blast
qed

text \<open>
  The claim as the spec states it fails: for a product that is not refundable the case
  creation and the calculation step return \<open>None\<close> without an event, and the five steps of
  the refund graph leave two events.
\<close>

theorem refund_steps_without_event:
  "create_refund_case_node fallback_env ((refund_state ''PO-30'' ''P3'' 80)(''is_refundable'' \<mapsto> VInt 0)) []
     = (Inr None, [])
   \<and> calculate_refund_node fallback_env example_db
        ((refund_state ''PO-30'' ''P3'' 80)(''is_refundable'' \<mapsto> VInt 0)) []
     = (Inr None, [])
   \<and> (case build_refund_graph (oracle_env ''PO-30'') example_db
               (initial_state ''run-1'' ''alice@example.com'' ''Refund for PO-30''
                  ''Please refund my order PO-30.'' VNone) [] of
         (Inr s, t) \<Rightarrow> map step_name t = [''data_extraction'', ''user_authetication'']
                       \<and> s ''is_refundable'' = Some (VInt 0)
       | _ \<Rightarrow> False)"
proof (intro conjI)
  show "create_refund_case_node fallback_env ((refund_state ''PO-30'' ''P3'' 80)(''is_refundable'' \<mapsto> VInt 0)) []
     = (Inr None, [])"
    by (simp add: create_refund_case_node_def need_def refund_state_def)
  show "calculate_refund_node fallback_env example_db
        ((refund_state ''PO-30'' ''P3'' 80)(''is_refundable'' \<mapsto> VInt 0)) []
     = (Inr None, [])"
    by (simp add: calculate_refund_node_def need_def refund_state_def)
  show "case build_refund_graph (oracle_env ''PO-30'') example_db
               (initial_state ''run-1'' ''alice@example.com'' ''Refund for PO-30''
                  ''Please refund my order PO-30.'' VNone) [] of
         (Inr s, t) \<Rightarrow> map step_name t = [''data_extraction'', ''user_authetication'']
                       \<and> s ''is_refundable'' = Some (VInt 0)
       | _ \<Rightarrow> False"
    by code_simp
qed

section \<open>Keyword retrieval\<close>

lemma space_lower: "is_space c \<Longrightarrow> lower_char c = c"
  by (auto simp: is_space_def lower_char_def Let_def)

lemma strip_empty_spaces:
  assumes "strip tx = []"
  shows "\<forall>c \<in> set tx. is_space c"
proof -
  from assms have "dropWhile is_space (rev (dropWhile is_space tx)) = []"
    by (simp add: strip_def)
  then have a: "\<forall>c \<in> set (dropWhile is_space tx). is_space c"
    by (simp add: dropWhile_eq_Nil_conv)
  have "dropWhile is_space tx = []"
  proof (cases "dropWhile is_space tx")
    case Nil
    then show ?thesis .
  next
    case (Cons c cs)
    then have "\<not> is_space c"
      using hd_dropWhile [of is_space tx] by simp
    with a Cons show ?thesis
      by simp
  qed
  then show ?thesis
    by (simp add: dropWhile_eq_Nil_conv)
qed

lemma split_spaces: "\<forall>c \<in> set s. is_space c \<Longrightarrow> foldr split_step s ([], []) = ([], [])"
  by (induction s) (auto simp: split_step_def)

lemma blank_word_set: "strip tx = [] \<Longrightarrow> word_set tx = {}"
proof -
  assume "strip tx = []"
  then have a: "\<forall>c \<in> set tx. is_space c"
    by (rule strip_empty_spaces)
  then have "lower tx = tx"
    by (simp add: lower_def space_lower map_idI)
  with a show ?thesis
    by (simp add: word_set_def split_def split_spaces)
qed

lemma keyword_scored_descending:
  "sorted_wrt (\<lambda>a b. fst b \<le> fst a) (keyword_scored rows query)"
proof -
  have "sorted (map (\<lambda>p. - fst p) (keyword_scored rows query))"
    by (simp add: keyword_scored_def)
  then show ?thesis
    by (simp add: sorted_map)
qed

lemma keyword_scored_stable:
  "filter (\<lambda>p. fst p = x) (keyword_scored rows query)
     = filter (\<lambda>p. fst p = x) (map (scored_row (word_set query)) rows)"
  using sort_key_stable [of "\<lambda>p. - fst p" "- x" "map (scored_row (word_set query)) rows"]
  by (simp add: keyword_scored_def)

lemma retrieve_keyword_path:
  assumes "emb = None \<or> (\<forall>r \<in> set rows. embedding_json r = None)" and "0 \<le> k"
  shows "retrieve_context emb rows query k = keep_nonblank (take (nat k) (keyword_scored rows query))"
proof (cases "rows = []")
  case True
  then show ?thesis
    by (simp add: retrieve_context_def keep_nonblank_def keyword_scored_def)
next
  case False
  from assms(1) have "(if list_ex (\<lambda>r. embedding_json r \<noteq> None) rows then emb else None) = None"
    by (auto simp: list_ex_iff)
  with False assms(2) show ?thesis
    by (simp add: retrieve_context_def slice_to_def)
qed

text \<open>
  Claim C6, as the code has it. Without an embedding path and for \<open>k\<close> not negative: every
  stored chunk is scored by the overlap formula on the lower-cased, white-space separated
  words; the scored list is in descending score order with equal scores in storage order;
  the result is the texts of the first \<open>k\<close> of that list, in that order, without the blank
  ones, so at most \<open>k\<close> texts and none blank; it is returned whenever no stored text is
  NULL. A blank chunk has score 0; a chunk is not left out for its score.
\<close>

theorem keyword_retrieval_ranks_top_k:
  assumes "emb = None \<or> (\<forall>r \<in> set rows. embedding_json r = None)" and "0 \<le> k"
  shows "sorted_wrt (\<lambda>a b. fst b \<le> fst a) (keyword_scored rows query)
       \<and> (\<forall>x. filter (\<lambda>p. fst p = x) (keyword_scored rows query)
                = filter (\<lambda>p. fst p = x) (map (scored_row (word_set query)) rows))
       \<and> (\<forall>res. retrieve_context emb rows query k = Inr res \<longrightarrow>
              res = map snd (filter nonblank (take (nat k) (keyword_scored rows query)))
              \<and> length res \<le> nat k
              \<and> (\<forall>x \<in> set res. \<exists>tx. x = Some tx \<and> strip tx \<noteq> []))
       \<and> ((\<forall>r \<in> set rows. chunk_text r \<noteq> None) \<longrightarrow>
              (\<exists>res. retrieve_context emb rows query k = Inr res))
       \<and> (\<forall>r \<in> set rows. \<forall>tx. chunk_text r = Some tx \<and> strip tx = [] \<longrightarrow>
              fst (scored_row (word_set query) r) = 0)"
proof (intro conjI)
  show "sorted_wrt (\<lambda>a b. fst b \<le> fst a) (keyword_scored rows query)"
    by (rule keyword_scored_descending)
  show "\<forall>x. filter (\<lambda>p. fst p = x) (keyword_scored rows query)
                = filter (\<lambda>p. fst p = x) (map (scored_row (word_set query)) rows)"
    by (simp add: keyword_scored_stable)
  note p = retrieve_keyword_path [OF assms, of query]
  show "\<forall>res. retrieve_context emb rows query k = Inr res \<longrightarrow>
              res = map snd (filter nonblank (take (nat k) (keyword_scored rows query)))
              \<and> length res \<le> nat k
              \<and> (\<forall>x \<in> set res. \<exists>tx. x = Some tx \<and> strip tx \<noteq> [])"
  proof (intro allI impI)
    fix res
    assume "retrieve_context emb rows query k = Inr res"
    with p have r: "res = map snd (filter nonblank (take (nat k) (keyword_scored rows query)))"
      by (simp add: keep_nonblank_def split: if_splits)
    have "length (filter nonblank (take (nat k) (keyword_scored rows query))) \<le> nat k"
      by (rule order_trans [OF length_filter_le]) simp
    moreover have "\<forall>x \<in> set res. \<exists>tx. x = Some tx \<and> strip tx \<noteq> []"
      unfolding r by (auto simp: nonblank_def split: option.splits)
    ultimately show "res = map snd (filter nonblank (take (nat k) (keyword_scored rows query)))
              \<and> length res \<le> nat k
              \<and> (\<forall>x \<in> set res. \<exists>tx. x = Some tx \<and> strip tx \<noteq> [])"
      using r by simp
  qed
  show "(\<forall>r \<in> set rows. chunk_text r \<noteq> None) \<longrightarrow>
              (\<exists>res. retrieve_context emb rows query k = Inr res)"
  proof
    assume a: "\<forall>r \<in> set rows. chunk_text r \<noteq> None"
    have "\<forall>p \<in> set (keyword_scored rows query). snd p \<noteq> None"
      using a by (auto simp: keyword_scored_def scored_row_def)
    then have "\<not> list_ex (\<lambda>p. snd p = None) (take (nat k) (keyword_scored rows query))"
      by (auto simp: list_ex_iff dest: in_set_takeD)
    with p show "\<exists>res. retrieve_context emb rows query k = Inr res"
      by (simp add: keep_nonblank_def)
  qed
  show "\<forall>r \<in> set rows. \<forall>tx. chunk_text r = Some tx \<and> strip tx = [] \<longrightarrow>
              fst (scored_row (word_set query) r) = 0"
    by (simp add: scored_row_def overlap_score_def blank_word_set)
qed

theorem keyword_retrieval_ranks_top_k_witness:
  "((None :: embedder option) = None \<or> (\<forall>r \<in> set example_chunks. embedding_json r = None))
   \<and> (0 :: int) \<le> 3
   \<and> list_all (\<lambda>r. chunk_text r \<noteq> None) example_chunks
   \<and> (\<exists>res. retrieve_context None example_chunks ''Refund policy'' 3 = Inr res
         \<and> length res \<le> nat 3
         \<and> (\<forall>x \<in> set res. \<exists>tx. x = Some tx \<and> strip tx \<noteq> []))"
proof -
  have h1: "(None :: embedder option) = None \<or> (\<forall>r \<in> set example_chunks. embedding_json r = None)"
    by simp
  have h2: "(0 :: int) \<le> 3"
    by simp
  have h3: "\<forall>r \<in> set example_chunks. chunk_text r \<noteq> None"
    by (simp add: example_chunks_def)
  note a = keyword_retrieval_ranks_top_k [OF h1 h2, of "''Refund policy''"]
  from a h3 obtain res where r: "retrieve_context None example_chunks ''Refund policy'' 3 = Inr res"
    by blast
  with a have "length res \<le> nat 3 \<and> (\<forall>x \<in> set res. \<exists>tx. x = Some tx \<and> strip tx \<noteq> [])"
    by blast
  with r have e: "\<exists>res. retrieve_context None example_chunks ''Refund policy'' 3 = Inr res
         \<and> length res \<le> nat 3
         \<and> (\<forall>x \<in> set res. \<exists>tx. x = Some tx \<and> strip tx \<noteq> [])"
    by blast
  have h3': "list_all (\<lambda>r. chunk_text r \<noteq> None) example_chunks"
    using h3 by (simp add: list_all_iff)
  show ?thesis
    by (intro conjI) (rule h1, rule h2, rule h3', rule e)
qed

text \<open>
  The claim as the spec states it fails: the first chunk shares no word with the query, has
  score 0, and is the third text returned for \<open>k = 3\<close>.
\<close>

theorem zero_score_chunk_is_returned:
  "fst (scored_row (word_set ''Refund policy'')
          \<lparr>chunk_text = Some ''Shipping takes five days'', embedding_json = None\<rparr>) = 0
   \<and> retrieve_context None example_chunks ''Refund policy'' 3
       = Inr [Some ''Refund policy for journals'', Some ''The refund window'',
              Some ''Shipping takes five days'']"
  by code_simp

section \<open>Pricing offers\<close>

text \<open>Every call of \<open>sales_node\<close> ends at its first lookup or before: line 401 hands the
  driver a tuple to bind, and so would line 426. No event is written.\<close>

lemma sales_node_lookup_raises: "\<exists>e. sales_node ev db st t = (Inl e, t)"
  by (auto simp: sales_node_def sql_fetchone_def sql_fetchall_def bindable_def
        split: sum.splits)

lemma sales_pricing_branch_raises: "sales_pricing_branch ev db st t tier evid = (Inl SqlError, t)"
  by (simp add: sales_pricing_branch_def sql_fetchall_def bindable_def)









end
